theory Spec2Isabelle
  imports Main "HOL-Library.Monad_Syntax"
begin

section \<open>JavaScript strings\<close>

text \<open>
  Source strings are modelled as \<^typ>\<open>string\<close>. \<open>charAt\<close> yields the empty string
  outside the string, which compares unequal to every one-character string; it is
  modelled with \<^typ>\<open>char option\<close>.
\<close>

definition charAt :: "string \<Rightarrow> nat \<Rightarrow> char option" where
  "charAt s i = (if i < length s then Some (s ! i) else None)"

definition is_lower :: "char \<Rightarrow> bool" where
  "is_lower c = (97 \<le> (of_char c :: nat) \<and> (of_char c :: nat) \<le> 122)"

definition is_upper :: "char \<Rightarrow> bool" where
  "is_upper c = (65 \<le> (of_char c :: nat) \<and> (of_char c :: nat) \<le> 90)"

definition is_digit :: "char \<Rightarrow> bool" where
  "is_digit c = (48 \<le> (of_char c :: nat) \<and> (of_char c :: nat) \<le> 57)"

text \<open>The character classes \<open>[a-zA-Z_]\<close> and \<open>[a-zA-Z0-9_]\<close>.\<close>

definition is_ident_start :: "char \<Rightarrow> bool" where
  "is_ident_start c = (is_lower c \<or> is_upper c \<or> c = CHR ''_'')"

definition is_ident_char :: "char \<Rightarrow> bool" where
  "is_ident_char c = (is_lower c \<or> is_upper c \<or> is_digit c \<or> c = CHR ''_'')"

text \<open>
  \<open>s.match(/^([a-zA-Z_][a-zA-Z0-9_]*)/)\<close>: the first capture group, or \<open>None\<close> when
  the match is \<open>null\<close>.
\<close>

definition match_identifier :: "string \<Rightarrow> string option" where
  "match_identifier s =
     (case s of
        [] \<Rightarrow> None
      | c # cs \<Rightarrow> if is_ident_start c then Some (c # takeWhile is_ident_char cs) else None)"

section \<open>Tokens of the Markdown tokenizer\<close>

text \<open>
  The fields of a markdown-it token that the parser reads or writes. \<open>tmap\<close> is the
  \<open>map\<close> field (\<open>null\<close> or a pair of lines).
\<close>

record token =
  ttype :: string
  tag :: string
  nesting :: int
  attrs :: "(string \<times> string) list"
  tmap :: "(nat option \<times> nat option) option"
  tcontent :: string
  markup :: string
  info :: string

definition new_token :: "string \<Rightarrow> string \<Rightarrow> int \<Rightarrow> token" where
  "new_token ty tg n =
     \<lparr>ttype = ty, tag = tg, nesting = n, attrs = [], tmap = None,
      tcontent = [], markup = [], info = []\<rparr>"

definition attrGet :: "token \<Rightarrow> string \<Rightarrow> string option" where
  "attrGet t name = map_of (attrs t) name"

section \<open>Inline rules of the parser\<close>

text \<open>
  The state an inline rule receives: the source, the position, the end position, the
  \<open>line\<close> property the rules copy into \<open>token.map\<close>, and the tokens pushed so far.
\<close>

record inline_state =
  src :: string
  pos :: nat
  posMax :: nat
  sline :: "nat option"
  pushed :: "token list"

definition push :: "inline_state \<Rightarrow> token \<Rightarrow> inline_state" where
  "push st t = st\<lparr>pushed := pushed st @ [t]\<rparr>"

text \<open>\<open>parseFunctionCall\<close>: the result is the returned flag and the state after the call.\<close>

definition parseFunctionCall :: "inline_state \<Rightarrow> bool \<Rightarrow> bool \<times> inline_state" where
  "parseFunctionCall st silent =
     (let start = pos st in
      if charAt (src st) start \<noteq> Some CHR ''.'' then (False, st)
      else
        (case match_identifier (drop (start + 1) (src st)) of
           None \<Rightarrow> (False, st)
         | Some functionName \<Rightarrow>
             (let p = start + 1 + length functionName;
                  st1 = (if \<not> silent
                         then push st ((new_token ''quarkdown_function_open'' [] 0)
                                \<lparr>markup := ''.'', info := functionName,
                                 tmap := Some (sline st, sline st)\<rparr>)
                         else st)
              in (True, st1\<lparr>pos := p\<rparr>))))"

text \<open>\<open>parseVariable\<close>.\<close>

definition parseVariable :: "inline_state \<Rightarrow> bool \<Rightarrow> bool \<times> inline_state" where
  "parseVariable st silent =
     (let start = pos st in
      if charAt (src st) start \<noteq> Some CHR ''.'' then (False, st)
      else
        (case match_identifier (drop (start + 1) (src st)) of
           None \<Rightarrow> (False, st)
         | Some variableName \<Rightarrow>
             (let p = start + 1 + length variableName in
              if charAt (src st) p = Some CHR ''{'' \<or> charAt (src st) p = Some CHR '' ''
              then (False, st)
              else
                (let st1 = (if \<not> silent
                            then push st ((new_token ''quarkdown_variable'' [] 0)
                                   \<lparr>tcontent := variableName,
                                    tmap := Some (sline st, sline st)\<rparr>)
                            else st)
                 in (True, st1\<lparr>pos := p\<rparr>)))))"

text \<open>
  The inline ruler is an ordered list of named rules. The rules of the tokenizer itself,
  and the math and image rules of the parser, are not run by this model (\<open>Opaque\<close>).
\<close>

datatype inline_rule = QuarkdownFunction | QuarkdownVariable | Opaque

type_synonym ruler = "(string \<times> inline_rule) list"

text \<open>
  \<open>ruler.before(beforeName, ruleName, fn)\<close> of markdown-it: the new rule is inserted
  directly in front of the rule named \<open>beforeName\<close>; an unknown name is an error.
\<close>

fun ruler_before :: "string \<Rightarrow> string \<times> inline_rule \<Rightarrow> ruler \<Rightarrow> ruler option" where
  "ruler_before beforeName r [] = None"
| "ruler_before beforeName r (x # xs) =
     (if fst x = beforeName then Some (r # x # xs)
      else map_option (Cons x) (ruler_before beforeName r xs))"

definition setupQuarkdownRules :: "ruler \<Rightarrow> ruler option" where
  "setupQuarkdownRules r0 =
     do {
       r1 \<leftarrow> ruler_before ''text'' (''quarkdown_function'', QuarkdownFunction) r0;
       r2 \<leftarrow> ruler_before ''text'' (''quarkdown_variable'', QuarkdownVariable) r1;
       r3 \<leftarrow> ruler_before ''text'' (''quarkdown_math'', Opaque) r2;
       ruler_before ''image'' (''quarkdown_image'', Opaque) r3
     }"

text \<open>The inline rules of a fresh markdown-it instance, in their order.\<close>

definition default_inline_ruler :: ruler where
  "default_inline_ruler =
     map (\<lambda>n. (n, Opaque))
       [''text'', ''linkify'', ''newline'', ''escape'', ''backticks'', ''strikethrough'',
        ''emphasis'', ''link'', ''image'', ''autolink'', ''html_inline'', ''entity'']"

text \<open>
  One step of the inline tokenizer: the rules are tried in the ruler's order and the first
  that returns true decides. \<open>Decided\<close> carries the state left by that rule; \<open>Deferred n\<close>
  says that the decision falls to the rule \<open>n\<close>, which this model does not run.
\<close>

datatype step = Decided inline_state | Deferred string | NoRule

fun tokenize_step :: "ruler \<Rightarrow> inline_state \<Rightarrow> step" where
  "tokenize_step [] st = NoRule"
| "tokenize_step ((n, Opaque) # rs) st = Deferred n"
| "tokenize_step ((n, QuarkdownFunction) # rs) st =
     (case parseFunctionCall st False of
        (True, st') \<Rightarrow> Decided st'
      | (False, _) \<Rightarrow> tokenize_step rs st)"
| "tokenize_step ((n, QuarkdownVariable) # rs) st =
     (case parseVariable st False of
        (True, st') \<Rightarrow> Decided st'
      | (False, _) \<Rightarrow> tokenize_step rs st)"

section \<open>Errors, values and the JavaScript host\<close>

text \<open>A thrown JavaScript error, with its \<open>message\<close>.\<close>

datatype js_error =
    TypeError string
  | RangeError string
  | ReferenceError string
  | Error string

fun error_message :: "js_error \<Rightarrow> string" where
  "error_message (TypeError m) = m"
| "error_message (RangeError m) = m"
| "error_message (ReferenceError m) = m"
| "error_message (Error m) = m"

text \<open>Sequencing of computations that may throw.\<close>

definition bindE :: "js_error + 'a \<Rightarrow> ('a \<Rightarrow> js_error + 'b) \<Rightarrow> js_error + 'b" where
  "bindE m f = (case m of Inl e \<Rightarrow> Inl e | Inr x \<Rightarrow> f x)"

text \<open>
  The values stored in variables (\<open>any\<close> in the source): strings, numbers, booleans and
  \<open>undefined\<close>. The type \<open>'n\<close> stands for the JavaScript numbers.
\<close>

datatype 'n jsval = VUndefined | VString string | VNumber 'n | VBoolean bool

record location =
  loc_line :: "nat option"
  loc_column :: nat
  loc_offset :: nat

text \<open>
  The nodes of the tree (\<open>ASTNodes.ts\<close>), one constructor for each node type the parser,
  the standard library, the compiler or the renderer handles; \<open>Other\<close> is a node of any
  other type, with its optional \<open>content\<close> and \<open>children\<close>. Optional booleans are
  \<open>False\<close> when absent. The last argument is the optional \<open>location\<close>.
  \<open>FunctionCall name args namedArgs body\<close>: \<open>namedArgs\<close> and \<open>body\<close> are always present
  in the nodes the parser builds. A table row is a list of cells and a cell a list of nodes,
  as \<open>renderTable\<close> reads them. The \<open>config\<close> of a Mermaid node is kept as its JSON text.
\<close>

datatype 'n node =
    Text string "location option"
  | Code string "string option" bool "location option"
  | Paragraph "'n node list" "location option"
  | Heading 'n "'n node list" "location option"
  | ListNode bool "'n node list" "location option"
  | ListItem "'n node list" "location option"
  | Blockquote "'n node list" "string option" "location option"
  | Emphasis bool "'n node list" "location option"
  | Link string "string option" "'n node list" "location option"
  | Image string "string option" "string option" "string option" "string option"
      "location option"
  | FunctionCall string "'n node list" "(string \<times> 'n node) list" "'n node list"
      "location option"
  | Variable string "location option"
  | Row "string option" "string option" "'n node list" "location option"
  | Column "string option" "string option" "'n node list" "location option"
  | Grid "'n option" "string option" "'n node list" "location option"
  | Center "'n node list" "location option"
  | Math string bool "location option"
  | Mermaid string "string option" "location option"
  | Table "'n node list list" "'n node list list list" "string list option"
      "location option"
  | Slide "string option" "'n node list" "string option" "string option" "location option"
  | Other string "string option" "'n node list option" "location option"

record doc_metadata =
  dm_title :: "string option"
  dm_author :: "string option"
  dm_language :: "string option"
  dm_doctype :: "string option"
  dm_theme :: "string option"

record 'n document =
  children :: "'n node list"
  doc_meta :: "doc_metadata option"

text \<open>
  What the program takes from its host: the number primitives of JavaScript (\<open>'n\<close> is the
  type of numbers, \<open>NaN\<close> included), the string and JSON built-ins, the clock, the DOM call
  behind \<open>escapeHtml\<close> (which throws where no \<open>document\<close> exists), the message of the
  \<open>TypeError\<close> raised on reading a property of \<open>undefined\<close>, and the tokenizer
  \<open>md.parse\<close> of markdown-it with the parser's rules installed.
\<close>

record 'n js =
  parseFloat :: "string \<Rightarrow> 'n"
  parseInt :: "string \<Rightarrow> 'n"
  isNaN :: "'n \<Rightarrow> bool"
  is_zero :: "'n \<Rightarrow> bool"
  num_lit :: "nat \<Rightarrow> 'n"
  num_add :: "'n \<Rightarrow> 'n \<Rightarrow> 'n"
  num_mul :: "'n \<Rightarrow> 'n \<Rightarrow> 'n"
  num_pow :: "'n \<Rightarrow> 'n \<Rightarrow> 'n"
  num_lt :: "'n \<Rightarrow> 'n \<Rightarrow> bool"
  numToString :: "'n \<Rightarrow> string"
  toFixed :: "'n \<Rightarrow> 'n \<Rightarrow> js_error + string"
  toUpperCase :: "string \<Rightarrow> string"
  toLowerCase :: "string \<Rightarrow> string"
  json_stringify :: "'n node \<Rightarrow> string"
  dom_escape :: "(string \<Rightarrow> string) option"
  msg_undefined_read :: "string \<Rightarrow> string"
  math_pi :: 'n
  math_e :: 'n
  date_today :: string
  date_now :: string
  date_year :: 'n
  date_month :: 'n
  date_day :: 'n
  new_date :: string
  md_parse :: "string \<Rightarrow> js_error + token list"

text \<open>Truthiness of a number, of an optional string, of a value.\<close>

definition num_truthy :: "'n js \<Rightarrow> 'n \<Rightarrow> bool" where
  "num_truthy J x = (\<not> is_zero J x \<and> \<not> isNaN J x)"

definition str_truthy :: "string option \<Rightarrow> bool" where
  "str_truthy s = (case s of None \<Rightarrow> False | Some t \<Rightarrow> t \<noteq> [])"

fun truthy :: "'n js \<Rightarrow> 'n jsval \<Rightarrow> bool" where
  "truthy J VUndefined = False"
| "truthy J (VString s) = (s \<noteq> [])"
| "truthy J (VNumber x) = num_truthy J x"
| "truthy J (VBoolean b) = b"

text \<open>\<open>x || d\<close> for an optional number \<open>x\<close>.\<close>

definition num_or :: "'n js \<Rightarrow> 'n option \<Rightarrow> 'n \<Rightarrow> 'n" where
  "num_or J x d = (case x of None \<Rightarrow> d | Some v \<Rightarrow> if num_truthy J v then v else d)"

text \<open>\<open>String(value)\<close>.\<close>

fun to_String :: "'n js \<Rightarrow> 'n jsval \<Rightarrow> string" where
  "to_String J VUndefined = ''undefined''"
| "to_String J (VString s) = s"
| "to_String J (VNumber x) = numToString J x"
| "to_String J (VBoolean b) = (if b then ''true'' else ''false'')"

text \<open>\<open>xs[i]\<close>, which is \<open>undefined\<close> outside the array.\<close>

definition at :: "'a list \<Rightarrow> nat \<Rightarrow> 'a option" where
  "at xs i = (if i < length xs then Some (xs ! i) else None)"

section \<open>The parser\<close>

text \<open>
  The white space class \<open>\s\<close> on the characters of \<^typ>\<open>char\<close>, and the line
  terminators after which \<open>^\<close> matches under the \<open>m\<close> flag.
\<close>

definition is_space :: "char \<Rightarrow> bool" where
  "is_space c = ((of_char c :: nat) \<in> {9, 10, 11, 12, 13, 32, 160})"

definition is_line_terminator :: "char \<Rightarrow> bool" where
  "is_line_terminator c = ((of_char c :: nat) \<in> {10, 13})"

text \<open>
  One match of \<open>/\.([a-zA-Z_][a-zA-Z0-9_]*)\s*\{([^}]*)\}/\<close> at the head of a string: the
  two groups and the rest after the match.
\<close>

definition match_call :: "string \<Rightarrow> (string \<times> string \<times> string) option" where
  "match_call s =
     (case s of
        [] \<Rightarrow> None
      | c # r \<Rightarrow>
          if c \<noteq> CHR ''.'' then None
          else
            (case match_identifier r of
               None \<Rightarrow> None
             | Some funcName \<Rightarrow>
                 (case dropWhile is_space (drop (length funcName) r) of
                    [] \<Rightarrow> None
                  | b # r3 \<Rightarrow>
                      if b \<noteq> CHR ''{'' then None
                      else
                        (case dropWhile (\<lambda>x. x \<noteq> CHR ''}'') r3 of
                           [] \<Rightarrow> None
                         | _ # rest \<Rightarrow>
                             Some (funcName, takeWhile (\<lambda>x. x \<noteq> CHR ''}'') r3, rest)))))"

lemma match_call_shorter: "match_call s = Some (f, a, rest) \<Longrightarrow> length rest < length s"
proof -
  assume m: "match_call s = Some (f, a, rest)"
  then obtain c r where s: "s = c # r" by (cases s) (auto simp: match_call_def)
  from m s obtain fn where fn: "match_identifier r = Some fn"
    by (auto simp: match_call_def split: if_splits option.splits)
  from m s fn obtain b r3 where r3: "dropWhile is_space (drop (length fn) r) = b # r3"
    by (auto simp: match_call_def split: if_splits list.splits)
  from m s fn r3 obtain x where x: "dropWhile (\<lambda>x. x \<noteq> CHR ''}'') r3 = x # rest"
    by (auto simp: match_call_def split: if_splits list.splits)
  have "length (x # rest) \<le> length r3" by (metis x length_dropWhile_le)
  moreover have "length (b # r3) \<le> length (drop (length fn) r)"
    by (metis r3 length_dropWhile_le)
  ultimately show ?thesis using s by simp
qed

text \<open>\<open>preprocessFunctionCalls\<close>: every match, from left to right, is replaced.\<close>

function preprocessFunctionCalls :: "string \<Rightarrow> string" where
  "preprocessFunctionCalls s =
     (case s of
        [] \<Rightarrow> []
      | c # cs \<Rightarrow>
          (case match_call s of
             Some (funcName, args, rest) \<Rightarrow>
               ''{{FUNCTION:'' @ funcName @ '':'' @ args @ ''}}'' @ preprocessFunctionCalls rest
           | None \<Rightarrow> c # preprocessFunctionCalls cs))"
  by pat_completeness auto
termination
  by (relation "measure length") (auto dest: match_call_shorter)

text \<open>
  One match of \<open>/^>\s*(Note|Tip|Warning|Info):\s*/\<close> at the head of a string that starts
  a line: the group and the rest after the match.
\<close>

definition strip_prefix :: "string \<Rightarrow> string \<Rightarrow> string option" where
  "strip_prefix p s = (if take (length p) s = p then Some (drop (length p) s) else None)"

definition match_quote_type :: "string \<Rightarrow> (string \<times> string) option" where
  "match_quote_type s =
     (case strip_prefix ''>'' s of
        None \<Rightarrow> None
      | Some r \<Rightarrow>
          (let r1 = dropWhile is_space r;
               alts = List.map_filter
                        (\<lambda>w. map_option (Pair w) (strip_prefix (w @ '':'') r1))
                        [''Note'', ''Tip'', ''Warning'', ''Info'']
           in case alts of
                [] \<Rightarrow> None
              | (w, r2) # _ \<Rightarrow> Some (w, dropWhile is_space r2)))"

lemma strip_prefix_length: "strip_prefix p s = Some r \<Longrightarrow> length r = length s - length p"
  by (auto simp: strip_prefix_def split: if_splits)

lemma match_quote_type_shorter:
  "match_quote_type s = Some (w, rest) \<Longrightarrow> length rest < length s"
proof -
  assume m: "match_quote_type s = Some (w, rest)"
  then obtain r where r: "strip_prefix ''>'' s = Some r"
    by (auto simp: match_quote_type_def split: option.splits)
  then have s: "length r < length s"
    by (cases s) (auto simp: strip_prefix_def split: if_splits)
  from m r obtain r2 where rest: "rest = dropWhile is_space r2"
    and r2: "(w, r2) \<in> set (List.map_filter
              (\<lambda>w. map_option (Pair w) (strip_prefix (w @ '':'') (dropWhile is_space r)))
              [''Note'', ''Tip'', ''Warning'', ''Info''])"
    by (auto simp: match_quote_type_def Let_def split: list.splits)
  from r2 have "strip_prefix (w @ '':'') (dropWhile is_space r) = Some r2"
    by (auto simp: List.map_filter_def split: if_splits)
  then have "length r2 \<le> length (dropWhile is_space r)"
    by (simp add: strip_prefix_length)
  then have "length r2 \<le> length r"
    by (meson length_dropWhile_le order_trans)
  moreover have "length rest \<le> length r2" by (simp add: rest length_dropWhile_le)
  ultimately show ?thesis using s by simp
qed

text \<open>
  The replacement of the typed blockquote markers; \<open>bol\<close> says whether the position is the
  start of the input or follows a line terminator.
\<close>

function replaceQuoteTypes :: "'n js \<Rightarrow> bool \<Rightarrow> string \<Rightarrow> string" where
  "replaceQuoteTypes J bol s =
     (case s of
        [] \<Rightarrow> []
      | c # cs \<Rightarrow>
          (case (if bol then match_quote_type s else None) of
             Some (ty, rest) \<Rightarrow>
               ''> [!'' @ toUpperCase J ty @ '']\<newline>> ''
                 @ replaceQuoteTypes J
                     (is_line_terminator (last (take (length s - length rest) s))) rest
           | None \<Rightarrow> c # replaceQuoteTypes J (is_line_terminator c) cs))"
  by pat_completeness auto
termination
  by (relation "measure (\<lambda>(J, bol, s). length s)")
     (auto dest: match_quote_type_shorter split: if_splits)

definition preprocessQuarkdownSyntax :: "'n js \<Rightarrow> string \<Rightarrow> string" where
  "preprocessQuarkdownSyntax J source = replaceQuoteTypes J True (preprocessFunctionCalls source)"

text \<open>The errors of the parser and of the compiler, and the warnings.\<close>

datatype error_type = Syntax | Semantic | Runtime

datatype warning_type = Deprecation | Performance | Style

record compile_error =
  e_message :: string
  e_line :: "nat option"
  e_column :: "nat option"
  e_type :: error_type

record compile_warning =
  w_message :: string
  w_line :: "nat option"
  w_column :: "nat option"
  w_type :: warning_type

record 'n parse_result =
  ast :: "'n document"
  errors :: "compile_error list"

definition token_location :: "token \<Rightarrow> location" where
  "token_location t =
     \<lparr>loc_line = (case tmap t of None \<Rightarrow> Some 0 | Some (l, _) \<Rightarrow> l),
      loc_column = 0, loc_offset = 0\<rparr>"

definition parseFunctionCallToken :: "token \<Rightarrow> compile_error list \<Rightarrow> 'n node" where
  "parseFunctionCallToken t errs = FunctionCall (info t) [] [] [] (Some (token_location t))"

definition parseImageToken :: "token \<Rightarrow> 'n node" where
  "parseImageToken t =
     Image (case attrGet t ''src'' of None \<Rightarrow> [] | Some s \<Rightarrow> s)
       (Some (tcontent t))
       (case attrGet t ''title'' of None \<Rightarrow> None | Some s \<Rightarrow> if s = [] then None else Some s)
       None None (Some (token_location t))"

text \<open>\<open>tokenToASTNode\<close>; \<open>None\<close> is \<open>null\<close>.\<close>

definition tokenToASTNode :: "'n js \<Rightarrow> token \<Rightarrow> compile_error list \<Rightarrow> 'n node option" where
  "tokenToASTNode J t errs =
     (let location = Some (token_location t); ty = ttype t in
      if ty = ''paragraph_open'' then None
      else if ty = ''paragraph_close'' then None
      else if ty = ''heading_open'' then Some (Heading (parseInt J (drop 1 (tag t))) [] location)
      else if ty = ''text'' then Some (Text (tcontent t) location)
      else if ty = ''code_inline'' then Some (Code (tcontent t) None True location)
      else if ty = ''code_block'' \<or> ty = ''fence''
        then Some (Code (tcontent t) (if info t = [] then None else Some (info t)) False location)
      else if ty = ''quarkdown_function_open'' then Some (parseFunctionCallToken t errs)
      else if ty = ''quarkdown_variable'' then Some (Variable (tcontent t) location)
      else if ty = ''quarkdown_math''
        then Some (Math (tcontent t) (info t = ''inline'') location)
      else if ty = ''image'' then Some (parseImageToken t)
      else if ty = ''link_open''
        then Some (Link (case attrGet t ''href'' of None \<Rightarrow> [] | Some s \<Rightarrow> s)
                     (case attrGet t ''title'' of
                        None \<Rightarrow> None | Some s \<Rightarrow> if s = [] then None else Some s)
                     [] location)
      else if ty = ''strong_open'' \<or> ty = ''em_open''
        then Some (Emphasis (ty = ''strong_open'') [] location)
      else if tcontent t \<noteq> [] then Some (Text (tcontent t) location)
      else None)"

definition tokensToAST :: "'n js \<Rightarrow> token list \<Rightarrow> compile_error list \<Rightarrow> 'n document" where
  "tokensToAST J ts errs =
     \<lparr>children = List.map_filter (\<lambda>t. tokenToASTNode J t errs) ts, doc_meta = None\<rparr>"

text \<open>
  The body of the \<open>try\<close> block of \<open>parse\<close>, and \<open>parse\<close> with its \<open>catch\<close>. The three
  passes push nothing onto \<open>errors\<close>.
\<close>

definition parse_try :: "'n js \<Rightarrow> string \<Rightarrow> compile_error list \<Rightarrow> js_error + 'n parse_result" where
  "parse_try J source errs =
     (let preprocessed = preprocessQuarkdownSyntax J source in
      bindE (md_parse J preprocessed)
        (\<lambda>tokens. Inr \<lparr>ast = tokensToAST J tokens errs, errors = errs\<rparr>))"

definition parse :: "'n js \<Rightarrow> string \<Rightarrow> 'n parse_result" where
  "parse J source =
     (let errs = [] in
      case parse_try J source errs of
        Inr r \<Rightarrow> r
      | Inl error \<Rightarrow>
          \<lparr>ast = \<lparr>children = [], doc_meta = None\<rparr>,
           errors = errs @ [\<lparr>e_message = ''Parse error: '' @ error_message error,
                             e_line = None, e_column = None, e_type = Syntax\<rparr>]\<rparr>)"

section \<open>The execution context\<close>

record 'n user_function =
  uf_name :: string
  uf_parameters :: "string list"
  uf_namedParameters :: "string list option"
  uf_body :: "'n node list"

record compile_options =
  o_doctype :: "string option"
  o_theme :: "string option"
  o_outputFormat :: "string option"
  o_strict :: "bool option"
  o_includePaths :: "string list option"

text \<open>
  The fields of \<open>ExecutionContext\<close>. The top of \<open>scopeStack\<close> is its last element, as in
  the source. A \<open>Map\<close> is a partial function; \<open>get\<close> of a missing key is \<open>undefined\<close>.
\<close>

record 'n execution_context =
  variables :: "string \<rightharpoonup> 'n jsval"
  metadata :: "string \<rightharpoonup> string"
  userFunctions :: "string \<rightharpoonup> 'n user_function"
  warnings :: "compile_warning list"
  namedArgs :: "(string \<times> 'n node) list"
  ctx_options :: compile_options
  scopeStack :: "(string \<rightharpoonup> 'n jsval) list"

definition map_get :: "(string \<rightharpoonup> 'n jsval) \<Rightarrow> string \<Rightarrow> 'n jsval" where
  "map_get m k = (case m k of None \<Rightarrow> VUndefined | Some v \<Rightarrow> v)"

definition new_context :: "'n js \<Rightarrow> compile_options \<Rightarrow> 'n execution_context" where
  "new_context J opts =
     \<lparr>variables =
        [''pi'' \<mapsto> VNumber (math_pi J), ''e'' \<mapsto> VNumber (math_e J),
         ''today'' \<mapsto> VString (date_today J), ''now'' \<mapsto> VString (date_now J),
         ''year'' \<mapsto> VNumber (date_year J), ''month'' \<mapsto> VNumber (date_month J),
         ''day'' \<mapsto> VNumber (date_day J)],
      metadata = Map.empty, userFunctions = Map.empty, warnings = [], namedArgs = [],
      ctx_options = opts, scopeStack = []\<rparr>"

definition setVariable :: "'n execution_context \<Rightarrow> string \<Rightarrow> 'n jsval \<Rightarrow> 'n execution_context" where
  "setVariable ctx name v = ctx\<lparr>variables := (variables ctx)(name \<mapsto> v)\<rparr>"

definition getVariable :: "'n execution_context \<Rightarrow> string \<Rightarrow> 'n jsval" where
  "getVariable ctx name =
     (if scopeStack ctx \<noteq> [] \<and> last (scopeStack ctx) name \<noteq> None
      then map_get (last (scopeStack ctx)) name
      else map_get (variables ctx) name)"

definition pushScope :: "'n execution_context \<Rightarrow> 'n execution_context" where
  "pushScope ctx = ctx\<lparr>scopeStack := scopeStack ctx @ [Map.empty]\<rparr>"

definition popScope :: "'n execution_context \<Rightarrow> 'n execution_context" where
  "popScope ctx = ctx\<lparr>scopeStack := butlast (scopeStack ctx)\<rparr>"

definition setScopedVariable :: "'n execution_context \<Rightarrow> string \<Rightarrow> 'n jsval \<Rightarrow> 'n execution_context" where
  "setScopedVariable ctx name v =
     (if scopeStack ctx \<noteq> []
      then ctx\<lparr>scopeStack :=
                 butlast (scopeStack ctx) @ [(last (scopeStack ctx))(name \<mapsto> v)]\<rparr>
      else setVariable ctx name v)"

definition setMetadata :: "'n execution_context \<Rightarrow> string \<Rightarrow> string \<Rightarrow> 'n execution_context" where
  "setMetadata ctx key v = ctx\<lparr>metadata := (metadata ctx)(key \<mapsto> v)\<rparr>"

definition defineFunction ::
  "'n execution_context \<Rightarrow> string \<Rightarrow> string list \<Rightarrow> 'n node list \<Rightarrow> string list option \<Rightarrow> 'n execution_context" where
  "defineFunction ctx name params body named =
     ctx\<lparr>userFunctions := (userFunctions ctx)
            (name \<mapsto> \<lparr>uf_name = name, uf_parameters = params,
                        uf_namedParameters = named, uf_body = body\<rparr>)\<rparr>"

definition addWarning :: "'n execution_context \<Rightarrow> compile_warning \<Rightarrow> 'n execution_context" where
  "addWarning ctx w = ctx\<lparr>warnings := warnings ctx @ [w]\<rparr>"

definition getWarnings :: "'n execution_context \<Rightarrow> compile_warning list" where
  "getWarnings ctx = warnings ctx"

definition nodeToValue :: "'n js \<Rightarrow> 'n execution_context \<Rightarrow> 'n node \<Rightarrow> 'n jsval" where
  "nodeToValue J ctx n =
     (case n of
        Text c _ \<Rightarrow> VString c
      | Variable name _ \<Rightarrow> getVariable ctx name
      | _ \<Rightarrow> VString (json_stringify J n))"

text \<open>
  \<open>executeUserFunction\<close>: a scope is pushed, the parameters are bound in it, the stored
  body is returned as it is, and the scope is popped.
\<close>

definition bind_positional ::
  "'n js \<Rightarrow> string list \<Rightarrow> 'n node list \<Rightarrow> 'n execution_context \<Rightarrow> 'n execution_context" where
  "bind_positional J params args ctx =
     fold (\<lambda>(paramName, arg) c. setScopedVariable c paramName (nodeToValue J c arg))
       (zip params args) ctx"

definition bind_named :: "'n js \<Rightarrow> string list option \<Rightarrow> 'n execution_context \<Rightarrow> 'n execution_context" where
  "bind_named J named ctx =
     fold (\<lambda>(name, v) c.
             if (case named of None \<Rightarrow> False | Some ns \<Rightarrow> name \<in> set ns)
             then setScopedVariable c name (nodeToValue J c v) else c)
       (namedArgs ctx) ctx"

section \<open>Results of a function and of the expansion\<close>

text \<open>
  A call yields a node, a list of nodes or \<open>null\<close>. A computation of the expansion may
  not return (\<open>None\<close>), throw (\<open>Some (Inl e)\<close>) or return (\<open>Some (Inr x)\<close>).
\<close>

datatype 'n result = RNull | RNode "'n node" | RNodes "'n node list"

type_synonym 'a exec = "(js_error + 'a) option"

definition ok :: "'a \<Rightarrow> 'a exec" where
  "ok x = Some (Inr x)"

definition lift :: "js_error + 'a \<Rightarrow> 'a exec" where
  "lift m = Some m"

definition executeUserFunction ::
  "'n js \<Rightarrow> 'n execution_context \<Rightarrow> 'n user_function \<Rightarrow> 'n node list \<Rightarrow> 'n node list
     \<Rightarrow> ('n result \<times> 'n execution_context) exec" where
  "executeUserFunction J ctx func args body =
     (let c1 = pushScope ctx;
          c2 = bind_positional J (uf_parameters func) args c1;
          c3 = bind_named J (uf_namedParameters func) c2;
          res = uf_body func
      in ok (RNodes res, popScope c3))"

section \<open>The standard library\<close>

fun getTextFromNode :: "'n node \<Rightarrow> string" where
  "getTextFromNode (Text c _) = c"
| "getTextFromNode (Paragraph cs _) = concat (map getTextFromNode cs)"
| "getTextFromNode (Heading _ cs _) = concat (map getTextFromNode cs)"
| "getTextFromNode (ListNode _ cs _) = concat (map getTextFromNode cs)"
| "getTextFromNode (ListItem cs _) = concat (map getTextFromNode cs)"
| "getTextFromNode (Blockquote cs _ _) = concat (map getTextFromNode cs)"
| "getTextFromNode (Emphasis _ cs _) = concat (map getTextFromNode cs)"
| "getTextFromNode (Link _ _ cs _) = concat (map getTextFromNode cs)"
| "getTextFromNode (Row _ _ cs _) = concat (map getTextFromNode cs)"
| "getTextFromNode (Column _ _ cs _) = concat (map getTextFromNode cs)"
| "getTextFromNode (Grid _ _ cs _) = concat (map getTextFromNode cs)"
| "getTextFromNode (Center cs _) = concat (map getTextFromNode cs)"
| "getTextFromNode (Slide _ cs _ _ _) = concat (map getTextFromNode cs)"
| "getTextFromNode (Other _ _ (Some cs) _) = concat (map getTextFromNode cs)"
| "getTextFromNode _ = []"

text \<open>
  \<open>getTextFromNode(args[i])\<close>: reading \<open>type\<close> of an absent argument throws.
\<close>

definition getTextFromArg :: "'n js \<Rightarrow> 'n node option \<Rightarrow> js_error + string" where
  "getTextFromArg J a =
     (case a of
        None \<Rightarrow> Inl (TypeError (msg_undefined_read J ''type''))
      | Some n \<Rightarrow> Inr (getTextFromNode n))"

definition getNumberFromNode :: "'n js \<Rightarrow> 'n node option \<Rightarrow> js_error + 'n option" where
  "getNumberFromNode J a =
     bindE (getTextFromArg J a)
       (\<lambda>text. let num = parseFloat J text in Inr (if isNaN J num then None else Some num))"

definition getStringArg :: "(string \<times> 'n node) list \<Rightarrow> string \<Rightarrow> string option" where
  "getStringArg named name = map_option getTextFromNode (map_of named name)"

definition getNumberArg :: "'n js \<Rightarrow> (string \<times> 'n node) list \<Rightarrow> string \<Rightarrow> 'n option" where
  "getNumberArg J named name =
     (case map_of named name of
        None \<Rightarrow> None
      | Some arg \<Rightarrow>
          (let num = parseFloat J (getTextFromNode arg) in
           if isNaN J num then None else Some num))"

definition evaluateCondition :: "'n js \<Rightarrow> 'n node option \<Rightarrow> 'n execution_context \<Rightarrow> js_error + bool" where
  "evaluateCondition J a ctx =
     bindE (getTextFromArg J a)
       (\<lambda>text.
          if take 1 text = ''.'' then Inr (truthy J (getVariable ctx (drop 1 text)))
          else if text = ''true'' then Inr True
          else if text = ''false'' then Inr False
          else (let num = parseFloat J text in Inr (\<not> isNaN J num \<and> \<not> is_zero J num)))"

type_synonym 'n impl =
  "'n node list \<Rightarrow> 'n node list \<Rightarrow> 'n execution_context \<Rightarrow> ('n result \<times> 'n execution_context) exec"

definition stdlib_row :: "'n impl" where
  "stdlib_row args body ctx =
     ok (RNode (Row (getStringArg (namedArgs ctx) ''alignment'')
                    (getStringArg (namedArgs ctx) ''gap'') body None), ctx)"

definition stdlib_column :: "'n impl" where
  "stdlib_column args body ctx =
     ok (RNode (Column (getStringArg (namedArgs ctx) ''cross'')
                       (getStringArg (namedArgs ctx) ''gap'') body None), ctx)"

definition stdlib_grid :: "'n js \<Rightarrow> 'n impl" where
  "stdlib_grid J args body ctx =
     ok (RNode (Grid (getNumberArg J (namedArgs ctx) ''columns'')
                     (getStringArg (namedArgs ctx) ''gap'') body None), ctx)"

definition stdlib_center :: "'n impl" where
  "stdlib_center args body ctx = ok (RNode (Center body None), ctx)"

definition stdlib_add :: "'n js \<Rightarrow> 'n impl" where
  "stdlib_add J args body ctx =
     lift (bindE (getNumberFromNode J (at args 0))
       (\<lambda>v. let value = num_or J v (num_lit J 0);
                 toValue = num_or J (getNumberArg J (namedArgs ctx) ''to'') (num_lit J 0)
             in Inr (RNode (Text (numToString J (num_add J value toValue)) None), ctx)))"

definition stdlib_multiply :: "'n js \<Rightarrow> 'n impl" where
  "stdlib_multiply J args body ctx =
     lift (bindE (getNumberFromNode J (at args 0))
       (\<lambda>v. let value = num_or J v (num_lit J 0);
                 byValue = num_or J (getNumberArg J (namedArgs ctx) ''by'') (num_lit J 1)
             in Inr (RNode (Text (numToString J (num_mul J value byValue)) None), ctx)))"

definition stdlib_pow :: "'n js \<Rightarrow> 'n impl" where
  "stdlib_pow J args body ctx =
     lift (bindE (getNumberFromNode J (at args 0))
       (\<lambda>v. let base = num_or J v (num_lit J 0);
                 exponent = num_or J (getNumberArg J (namedArgs ctx) ''to'') (num_lit J 1)
             in Inr (RNode (Text (numToString J (num_pow J base exponent)) None), ctx)))"

definition stdlib_truncate :: "'n js \<Rightarrow> 'n impl" where
  "stdlib_truncate J args body ctx =
     lift (bindE (getNumberFromNode J (at args 0))
       (\<lambda>v. let decimals = num_or J v (num_lit J 0);
                 content = concat (map getTextFromNode body);
                 number = parseFloat J content
             in if isNaN J number then Inr (RNode (Text content None), ctx)
                else bindE (toFixed J number decimals)
                       (\<lambda>s. Inr (RNode (Text s None), ctx))))"

definition stdlib_if :: "'n js \<Rightarrow> 'n impl" where
  "stdlib_if J args body ctx =
     lift (bindE (evaluateCondition J (at args 0) ctx)
       (\<lambda>condition. Inr (if condition then RNodes body else RNull, ctx)))"

text \<open>
  The loop of \<open>repeat\<close>, from the counter \<open>i\<close> on. It ends when \<open>i < count\<close> fails, which
  for some numbers never happens.
\<close>

partial_function (option) repeat_loop ::
  "'n js \<Rightarrow> 'n \<Rightarrow> 'n \<Rightarrow> 'n node list \<Rightarrow> 'n execution_context \<Rightarrow> 'n node list
     \<Rightarrow> ('n node list \<times> 'n execution_context) option" where
  "repeat_loop J i count body ctx res =
     (if num_lt J i count
      then repeat_loop J (num_add J i (num_lit J 1)) count body
             (setVariable ctx ''_index'' (VNumber i)) (res @ body)
      else Some (res, ctx))"

declare repeat_loop.simps [code]

definition stdlib_repeat :: "'n js \<Rightarrow> 'n impl" where
  "stdlib_repeat J args body ctx =
     (case getNumberFromNode J (at args 0) of
        Inl e \<Rightarrow> Some (Inl e)
      | Inr v \<Rightarrow>
          map_option (\<lambda>(res, c). Inr (RNodes res, c))
            (repeat_loop J (num_lit J 0) (num_or J v (num_lit J 1)) body ctx []))"

definition stdlib_var :: "'n js \<Rightarrow> 'n impl" where
  "stdlib_var J args body ctx =
     lift (bindE (getTextFromArg J (at args 0))
       (\<lambda>name. bindE (if length args > 1 then getTextFromArg J (at args 1) else Inr [])
          (\<lambda>v. Inr (RNull, setVariable ctx name (VString v)))))"

definition stdlib_upper :: "'n js \<Rightarrow> 'n impl" where
  "stdlib_upper J args body ctx =
     ok (RNodes (map (\<lambda>n. case n of Text c l \<Rightarrow> Text (toUpperCase J c) l | _ \<Rightarrow> n) body), ctx)"

definition stdlib_lower :: "'n js \<Rightarrow> 'n impl" where
  "stdlib_lower J args body ctx =
     ok (RNodes (map (\<lambda>n. case n of Text c l \<Rightarrow> Text (toLowerCase J c) l | _ \<Rightarrow> n) body), ctx)"

definition stdlib_docname :: "'n js \<Rightarrow> 'n impl" where
  "stdlib_docname J args body ctx =
     lift (bindE (getTextFromArg J (at args 0))
       (\<lambda>title. Inr (RNull, setMetadata ctx ''title'' title)))"

definition stdlib_docauthor :: "'n js \<Rightarrow> 'n impl" where
  "stdlib_docauthor J args body ctx =
     lift (bindE (getTextFromArg J (at args 0))
       (\<lambda>author. Inr (RNull, setMetadata ctx ''author'' author)))"

definition stdlib_doctype :: "'n js \<Rightarrow> 'n impl" where
  "stdlib_doctype J args body ctx =
     lift (bindE (getTextFromArg J (at args 0))
       (\<lambda>doctype. Inr (RNull, setMetadata ctx ''doctype'' doctype)))"

definition stdlib_theme :: "'n js \<Rightarrow> 'n impl" where
  "stdlib_theme J args body ctx =
     lift (bindE (getTextFromArg J (at args 0))
       (\<lambda>themeName.
          let layout = getStringArg (namedArgs ctx) ''layout'';
              c1 = setMetadata ctx ''theme'' themeName
          in Inr (RNull,
                  if str_truthy layout then setMetadata c1 ''layout'' (the layout) else c1)))"

definition stdlib_include :: "'n js \<Rightarrow> 'n impl" where
  "stdlib_include J args body ctx =
     lift (bindE (getTextFromArg J (at args 0))
       (\<lambda>path. Inr (RNodes [Text (''[Included: '' @ path @ '']'') None], ctx)))"

definition stdlib_function :: "'n js \<Rightarrow> 'n impl" where
  "stdlib_function J args body ctx =
     lift (bindE (getTextFromArg J (at args 0))
       (\<lambda>functionName. Inr (RNull, defineFunction ctx functionName [] body None)))"

text \<open>The table built by \<open>registerStandardFunctions\<close>, in the order of registration.\<close>

definition stdlib_functions :: "'n js \<Rightarrow> (string \<times> 'n impl) list" where
  "stdlib_functions J =
     [(''row'', stdlib_row), (''column'', stdlib_column), (''grid'', stdlib_grid J),
      (''center'', stdlib_center), (''add'', stdlib_add J), (''multiply'', stdlib_multiply J),
      (''pow'', stdlib_pow J), (''truncate'', stdlib_truncate J), (''if'', stdlib_if J),
      (''repeat'', stdlib_repeat J), (''var'', stdlib_var J), (''upper'', stdlib_upper J),
      (''lower'', stdlib_lower J), (''docname'', stdlib_docname J),
      (''docauthor'', stdlib_docauthor J), (''doctype'', stdlib_doctype J),
      (''theme'', stdlib_theme J), (''include'', stdlib_include J),
      (''function'', stdlib_function J)]"

definition stdlib_names :: "string list" where
  "stdlib_names =
     [''row'', ''column'', ''grid'', ''center'', ''add'', ''multiply'', ''pow'', ''truncate'',
      ''if'', ''repeat'', ''var'', ''upper'', ''lower'', ''docname'', ''docauthor'',
      ''doctype'', ''theme'', ''include'', ''function'']"

definition stdlib_hasFunction :: "'n js \<Rightarrow> string \<Rightarrow> bool" where
  "stdlib_hasFunction J name = (map_of (stdlib_functions J) name \<noteq> None)"

definition stdlib_executeFunction :: "'n js \<Rightarrow> string \<Rightarrow> 'n impl" where
  "stdlib_executeFunction J name args body ctx =
     (case map_of (stdlib_functions J) name of
        None \<Rightarrow> Some (Inl (Error (''Unknown function: '' @ name)))
      | Some impl \<Rightarrow> impl args body ctx)"

text \<open>\<open>hasFunction\<close> and \<open>executeFunction\<close> of the execution context.\<close>

definition context_hasFunction :: "'n js \<Rightarrow> 'n execution_context \<Rightarrow> string \<Rightarrow> bool" where
  "context_hasFunction J ctx name =
     (userFunctions ctx name \<noteq> None \<or> stdlib_hasFunction J name)"

definition context_executeFunction :: "'n js \<Rightarrow> 'n execution_context \<Rightarrow> string \<Rightarrow> 'n node list
     \<Rightarrow> 'n node list \<Rightarrow> ('n result \<times> 'n execution_context) exec" where
  "context_executeFunction J ctx name args body =
     (case userFunctions ctx name of
        Some userFunc \<Rightarrow> executeUserFunction J ctx userFunc args body
      | None \<Rightarrow>
          if stdlib_hasFunction J name then stdlib_executeFunction J name args body ctx
          else Some (Inl (Error (''Unknown function: '' @ name))))"

section \<open>The expansion of the tree\<close>

definition executeFunctionCall ::
  "'n js \<Rightarrow> string \<Rightarrow> 'n node list \<Rightarrow> 'n node list \<Rightarrow> 'n execution_context
     \<Rightarrow> ('n result \<times> 'n execution_context) exec" where
  "executeFunctionCall J name args body ctx =
     (if stdlib_hasFunction J name then stdlib_executeFunction J name args body ctx
      else if context_hasFunction J ctx name then context_executeFunction J ctx name args body
      else ok (RNull, addWarning ctx
                 \<lparr>w_message = ''Unknown function: '' @ name, w_line = None, w_column = None,
                  w_type = Style\<rparr>))"

definition resolveVariable :: "'n js \<Rightarrow> string \<Rightarrow> 'n execution_context \<Rightarrow> 'n node \<times> 'n execution_context" where
  "resolveVariable J name ctx =
     (let v = getVariable ctx name in
      if v \<noteq> VUndefined then (Text (to_String J v) None, ctx)
      else (Text (''{{'' @ name @ ''}}'') None,
            addWarning ctx
              \<lparr>w_message = ''Undefined variable: '' @ name, w_line = None, w_column = None,
               w_type = Style\<rparr>))"

text \<open>What a result adds to the children of its parent.\<close>

fun splice :: "'n result \<Rightarrow> 'n node list" where
  "splice RNull = []"
| "splice (RNode n) = [n]"
| "splice (RNodes ns) = ns"

text \<open>
  \<open>executeNode\<close>, and the loop over the children that \<open>executeNode\<close> and
  \<open>executeDocument\<close> both run.
\<close>

fun executeNode :: "'n js \<Rightarrow> 'n node \<Rightarrow> 'n execution_context \<Rightarrow> ('n result \<times> 'n execution_context) exec"
  and executeChildren ::
    "'n js \<Rightarrow> 'n node list \<Rightarrow> 'n execution_context \<Rightarrow> ('n node list \<times> 'n execution_context) exec" where
  "executeNode J (FunctionCall name args named body l) ctx =
     executeFunctionCall J name args body ctx"
| "executeNode J (Variable name l) ctx =
     (case resolveVariable J name ctx of (n, c) \<Rightarrow> ok (RNode n, c))"
| "executeNode J (Paragraph cs l) ctx =
     (case executeChildren J cs ctx of
        None \<Rightarrow> None
      | Some (Inl e) \<Rightarrow> Some (Inl e)
      | Some (Inr (cs', c)) \<Rightarrow> ok (RNode (Paragraph cs' l), c))"
| "executeNode J (Heading lv cs l) ctx =
     (case executeChildren J cs ctx of
        None \<Rightarrow> None
      | Some (Inl e) \<Rightarrow> Some (Inl e)
      | Some (Inr (cs', c)) \<Rightarrow> ok (RNode (Heading lv cs' l), c))"
| "executeNode J (ListNode b cs l) ctx =
     (case executeChildren J cs ctx of
        None \<Rightarrow> None
      | Some (Inl e) \<Rightarrow> Some (Inl e)
      | Some (Inr (cs', c)) \<Rightarrow> ok (RNode (ListNode b cs' l), c))"
| "executeNode J (Blockquote cs q l) ctx =
     (case executeChildren J cs ctx of
        None \<Rightarrow> None
      | Some (Inl e) \<Rightarrow> Some (Inl e)
      | Some (Inr (cs', c)) \<Rightarrow> ok (RNode (Blockquote cs' q l), c))"
| "executeNode J n ctx = ok (RNode n, ctx)"
| "executeChildren J [] ctx = ok ([], ctx)"
| "executeChildren J (n # ns) ctx =
     (case executeNode J n ctx of
        None \<Rightarrow> None
      | Some (Inl e) \<Rightarrow> Some (Inl e)
      | Some (Inr (r, c1)) \<Rightarrow>
          (case executeChildren J ns c1 of
             None \<Rightarrow> None
           | Some (Inl e) \<Rightarrow> Some (Inl e)
           | Some (Inr (rs, c2)) \<Rightarrow> ok (splice r @ rs, c2)))"

definition executeDocument :: "'n js \<Rightarrow> 'n document \<Rightarrow> 'n execution_context \<Rightarrow> ('n document \<times> 'n execution_context) exec" where
  "executeDocument J doc ctx =
     (case executeChildren J (children doc) ctx of
        None \<Rightarrow> None
      | Some (Inl e) \<Rightarrow> Some (Inl e)
      | Some (Inr (cs, c)) \<Rightarrow> ok (doc\<lparr>children := cs\<rparr>, c))"

section \<open>The renderer\<close>

record render_options =
  r_doctype :: "string option"
  r_theme :: "string option"
  r_outputFormat :: "string option"
  r_includeStyles :: "bool option"
  r_minify :: "bool option"

text \<open>
  The fixed texts of the renderer: the icons of the typed quotes, the style sheets and the
  scripts of the page. They are long literals without any logic and are passed as they are.
\<close>

record texts =
  icon_note :: string
  icon_tip :: string
  icon_warning :: string
  icon_info :: string
  base_styles :: string
  theme_styles :: "string \<Rightarrow> string"
  layout_styles :: string
  doctype_styles :: "string \<Rightarrow> string"
  scripts_common :: string
  scripts_slides :: string

text \<open>
  \<open>escapeHtml\<close> writes the text into a new DOM element and reads its \<open>innerHTML\<close>; what
  comes back is the host's business. Without a \<open>document\<close> the call throws.
\<close>

definition escapeHtml :: "'n js \<Rightarrow> string \<Rightarrow> js_error + string" where
  "escapeHtml J text =
     (case dom_escape J of
        None \<Rightarrow> Inl (ReferenceError ''document is not defined'')
      | Some f \<Rightarrow> Inr (f text))"

fun join :: "string \<Rightarrow> string list \<Rightarrow> string" where
  "join sep [] = []"
| "join sep [x] = x"
| "join sep (x # y # ys) = x @ sep @ join sep (y # ys)"

fun mapE :: "('a \<Rightarrow> js_error + 'b) \<Rightarrow> 'a list \<Rightarrow> js_error + 'b list" where
  "mapE f [] = Inr []"
| "mapE f (x # xs) =
     (case f x of
        Inl e \<Rightarrow> Inl e
      | Inr y \<Rightarrow> (case mapE f xs of Inl e \<Rightarrow> Inl e | Inr ys \<Rightarrow> Inr (y # ys)))"

lemma mapE_cong [fundef_cong]:
  "xs = ys \<Longrightarrow> (\<And>x. x \<in> set ys \<Longrightarrow> f x = g x) \<Longrightarrow> mapE f xs = mapE g ys"
  by (induction ys arbitrary: xs) (auto split: sum.splits)

lemma bindE_cong [fundef_cong]:
  "m = m' \<Longrightarrow> (\<And>x. m' = Inr x \<Longrightarrow> f x = g x) \<Longrightarrow> bindE m f = bindE m' g"
  by (auto simp: bindE_def split: sum.splits)

definition getQuoteTypeIcon :: "texts \<Rightarrow> string option \<Rightarrow> string" where
  "getQuoteTypeIcon T ty =
     (if ty = Some ''note'' then icon_note T
      else if ty = Some ''tip'' then icon_tip T
      else if ty = Some ''warning'' then icon_warning T
      else if ty = Some ''info'' then icon_info T
      else [])"

text \<open>\<open>generateId\<close>: the three replacements after the change to lower case.\<close>

fun collapse_separators :: "bool \<Rightarrow> string \<Rightarrow> string" where
  "collapse_separators in_run [] = []"
| "collapse_separators in_run (c # cs) =
     (if is_space c \<or> c = CHR ''_'' \<or> c = CHR ''-''
      then (if in_run then collapse_separators True cs
            else CHR ''-'' # collapse_separators True cs)
      else c # collapse_separators False cs)"

definition generateId :: "'n js \<Rightarrow> string \<Rightarrow> string" where
  "generateId J text =
     (let s1 = filter (\<lambda>c. is_ident_char c \<or> is_space c \<or> c = CHR ''-'') (toLowerCase J text);
          s2 = collapse_separators False s1
      in rev (dropWhile (\<lambda>c. c = CHR ''-'') (rev (dropWhile (\<lambda>c. c = CHR ''-'') s2))))"

definition renderText :: "'n js \<Rightarrow> string \<Rightarrow> js_error + string" where
  "renderText J content = escapeHtml J content"

definition renderCode :: "'n js \<Rightarrow> string \<Rightarrow> string option \<Rightarrow> bool \<Rightarrow> js_error + string" where
  "renderCode J content language inline =
     bindE (escapeHtml J content)
       (\<lambda>c. if inline then Inr (''<code>'' @ c @ ''</code>'')
             else
               (let languageClass =
                      (if str_truthy language
                       then '' class=\"language-'' @ the language @ ''\"'' else [])
                in Inr (''<pre><code'' @ languageClass @ ''>'' @ c @ ''</code></pre>'')))"

definition renderMath :: "'n js \<Rightarrow> string \<Rightarrow> bool \<Rightarrow> js_error + string" where
  "renderMath J content inline =
     bindE (escapeHtml J content)
       (\<lambda>c. let className = (if inline then ''math math-inline'' else ''math math-display'')
             in Inr (''<span class=\"'' @ className @ ''\">'' @ c @ ''</span>''))"

text \<open>\<open>renderImage\<close>, with the fields \<open>src\<close>, \<open>alt\<close>, \<open>title\<close>, \<open>width\<close> and \<open>height\<close>.\<close>

definition renderImage ::
  "'n js \<Rightarrow> string \<Rightarrow> string option \<Rightarrow> string option \<Rightarrow> string option \<Rightarrow> string option
     \<Rightarrow> js_error + string" where
  "renderImage J isrc ialt ititle width height =
     bindE (if str_truthy ialt
            then bindE (escapeHtml J (the ialt)) (\<lambda>a. Inr ('' alt=\"'' @ a @ ''\"''))
            else Inr [])
       (\<lambda>alt.
     bindE (if str_truthy ititle
            then bindE (escapeHtml J (the ititle)) (\<lambda>t. Inr ('' title=\"'' @ t @ ''\"''))
            else Inr [])
       (\<lambda>title.
          let style =
                (if str_truthy width \<or> str_truthy height
                 then '' style=\"'' @
                      join ''; ''
                        ((if str_truthy width then [''width: '' @ the width] else []) @
                         (if str_truthy height then [''height: '' @ the height] else []))
                      @ ''\"''
                 else [])
          in bindE (escapeHtml J isrc)
               (\<lambda>s. Inr (''<img src=\"'' @ s @ ''\"'' @ alt @ title @ style @ ''>''))))"

definition renderMermaid :: "'n js \<Rightarrow> string \<Rightarrow> string option \<Rightarrow> js_error + string" where
  "renderMermaid J content config =
     bindE (escapeHtml J content)
       (\<lambda>c. let configAttr =
                   (case config of
                      None \<Rightarrow> []
                    | Some json \<Rightarrow> '' data-config='' @ [CHR 0x27] @ json @ [CHR 0x27])
             in Inr (''<div class=\"mermaid\"'' @ configAttr @ ''>'' @ c @ ''</div>''))"

text \<open>
  \<open>renderNode\<close>. \<open>renderChildren\<close> renders every node, drops the empty results and joins
  the rest with a line break; it is written out at each use. The renderer throws only where
  the host has no \<open>document\<close>, with the same error at every call of \<open>escapeHtml\<close>, so the
  order in which the nodes of a list are rendered does not show in the result.
\<close>

definition join_rendered :: "string list \<Rightarrow> string" where
  "join_rendered rendered = join ''\<newline>'' (filter (\<lambda>html. html \<noteq> []) rendered)"

definition align_class :: "string list option \<Rightarrow> nat \<Rightarrow> string" where
  "align_class alignment i =
     (let align = (case alignment of None \<Rightarrow> None | Some al \<Rightarrow> at al i) in
      if str_truthy align then '' class=\"text-'' @ the align @ ''\"'' else [])"

fun renderNode :: "'n js \<Rightarrow> texts \<Rightarrow> 'n node \<Rightarrow> js_error + string" where
  "renderNode J T (Text c _) = renderText J c"
| "renderNode J T (Paragraph cs _) =
     bindE (mapE (renderNode J T) cs) (\<lambda>r. Inr (''<p>'' @ join_rendered r @ ''</p>''))"
| "renderNode J T (Heading level cs _) =
     bindE (mapE (renderNode J T) cs)
       (\<lambda>r. let content = join_rendered r; ident = generateId J content
             in Inr (''<h'' @ numToString J level @ '' id=\"'' @ ident @ ''\">'' @ content
                     @ ''</h'' @ numToString J level @ ''>''))"
| "renderNode J T (ListNode ordered cs _) =
     bindE (mapE (renderNode J T) cs)
       (\<lambda>r. let tg = (if ordered then ''ol'' else ''ul'')
             in Inr (''<'' @ tg @ ''>\<newline>'' @ join_rendered r @ ''\<newline></'' @ tg @ ''>''))"
| "renderNode J T (ListItem cs _) =
     bindE (mapE (renderNode J T) cs) (\<lambda>r. Inr (''<li>'' @ join_rendered r @ ''</li>''))"
| "renderNode J T (Blockquote cs quoteType _) =
     bindE (mapE (renderNode J T) cs)
       (\<lambda>r. let typeClass =
                   (if str_truthy quoteType
                    then '' class=\"quote-'' @ the quoteType @ ''\"'' else [])
             in Inr (''<blockquote'' @ typeClass @ ''>\<newline>            ''
                     @ getQuoteTypeIcon T quoteType @ ''\<newline>            ''
                     @ join_rendered r @ ''\<newline>        </blockquote>''))"
| "renderNode J T (Code c language inline _) = renderCode J c language inline"
| "renderNode J T (Math c inline _) = renderMath J c inline"
| "renderNode J T (Image isrc ialt ititle width height _) =
     renderImage J isrc ialt ititle width height"
| "renderNode J T (Link url ltitle cs _) =
     bindE (mapE (renderNode J T) cs)
       (\<lambda>r. bindE (if str_truthy ltitle
                    then bindE (escapeHtml J (the ltitle))
                           (\<lambda>t. Inr ('' title=\"'' @ t @ ''\"''))
                    else Inr [])
          (\<lambda>title. bindE (escapeHtml J url)
             (\<lambda>u. Inr (''<a href=\"'' @ u @ ''\"'' @ title @ ''>'' @ join_rendered r
                        @ ''</a>''))))"
| "renderNode J T (Emphasis strong cs _) =
     bindE (mapE (renderNode J T) cs)
       (\<lambda>r. let tg = (if strong then ''strong'' else ''em'')
             in Inr (''<'' @ tg @ ''>'' @ join_rendered r @ ''</'' @ tg @ ''>''))"
| "renderNode J T (Row alignment gap cs _) =
     bindE (mapE (renderNode J T) cs)
       (\<lambda>r. let alignmentClass =
                   (if str_truthy alignment then '' alignment-'' @ the alignment else []);
                 gapStyle =
                   (if str_truthy gap then '' style=\"--gap: '' @ the gap @ ''\"'' else [])
             in Inr (''<div class=\"qmd-row'' @ alignmentClass @ ''\"'' @ gapStyle @ ''>''
                     @ join_rendered r @ ''</div>''))"
| "renderNode J T (Column crossAlignment gap cs _) =
     bindE (mapE (renderNode J T) cs)
       (\<lambda>r. let crossClass =
                   (if str_truthy crossAlignment then '' cross-'' @ the crossAlignment else []);
                 gapStyle =
                   (if str_truthy gap then '' style=\"--gap: '' @ the gap @ ''\"'' else [])
             in Inr (''<div class=\"qmd-column'' @ crossClass @ ''\"'' @ gapStyle @ ''>''
                     @ join_rendered r @ ''</div>''))"
| "renderNode J T (Grid columns gap cs _) =
     bindE (mapE (renderNode J T) cs)
       (\<lambda>r. let columnsStyle =
                   (case columns of
                      None \<Rightarrow> []
                    | Some n \<Rightarrow>
                        if num_truthy J n then ''--columns: '' @ numToString J n else []);
                 gapStyle = (if str_truthy gap then ''--gap: '' @ the gap else []);
                 styles = join ''; '' (filter (\<lambda>s. s \<noteq> []) [columnsStyle, gapStyle]);
                 styleAttr = (if styles \<noteq> [] then '' style=\"'' @ styles @ ''\"'' else [])
             in Inr (''<div class=\"qmd-grid\"'' @ styleAttr @ ''>'' @ join_rendered r
                     @ ''</div>''))"
| "renderNode J T (Center cs _) =
     bindE (mapE (renderNode J T) cs)
       (\<lambda>r. Inr (''<div class=\"qmd-center\">'' @ join_rendered r @ ''</div>''))"
| "renderNode J T (Slide stitle cs transition background _) =
     bindE (mapE (renderNode J T) cs)
       (\<lambda>r. bindE (if str_truthy stitle
                    then bindE (escapeHtml J (the stitle))
                           (\<lambda>t. Inr (''<h1 class=\"slide-title\">'' @ t @ ''</h1>''))
                    else Inr [])
          (\<lambda>titleHtml.
             let transitionAttr =
                   (if str_truthy transition
                    then '' data-transition=\"'' @ the transition @ ''\"'' else []);
                 backgroundAttr =
                   (if str_truthy background
                    then '' data-background=\"'' @ the background @ ''\"'' else [])
             in Inr (''<section class=\"slide\"'' @ transitionAttr @ backgroundAttr
                     @ ''>\<newline>            '' @ titleHtml
                     @ ''\<newline>            <div class=\"slide-content\">\<newline>                ''
                     @ join_rendered r
                     @ ''\<newline>            </div>\<newline>        </section>'')))"
| "renderNode J T (Table headers rows alignment _) =
     bindE (if headers \<noteq> []
            then bindE (mapE (\<lambda>cell. bindE (mapE (renderNode J T) cell)
                                        (\<lambda>r. Inr (join_rendered r))) headers)
                   (\<lambda>hs. Inr (''<thead>\<newline><tr>\<newline>''
                              @ concat (map (\<lambda>(i, cellContent).
                                               ''<th'' @ align_class alignment i @ ''>''
                                               @ cellContent @ ''</th>\<newline>'')
                                          (zip [0 ..< length hs] hs))
                              @ ''</tr>\<newline></thead>\<newline>''))
            else Inr [])
       (\<lambda>thead.
     bindE (if rows \<noteq> []
            then bindE (mapE (\<lambda>row.
                                bindE (mapE (\<lambda>cell. bindE (mapE (renderNode J T) cell)
                                                       (\<lambda>r. Inr (join_rendered r))) row)
                                  (\<lambda>tds. Inr (''<tr>\<newline>''
                                               @ concat (map (\<lambda>(i, cellContent).
                                                                ''<td'' @ align_class alignment i
                                                                @ ''>'' @ cellContent
                                                                @ ''</td>\<newline>'')
                                                           (zip [0 ..< length tds] tds))
                                               @ ''</tr>\<newline>'')))
                          rows)
                   (\<lambda>trs. Inr (''<tbody>\<newline>'' @ concat trs @ ''</tbody>\<newline>''))
            else Inr [])
       (\<lambda>tbody. Inr (''<table>\<newline>'' @ thead @ tbody @ ''</table>'')))"
| "renderNode J T (Mermaid c config _) = renderMermaid J c config"
| "renderNode J T (FunctionCall _ _ _ _ _) = Inr []"
| "renderNode J T (Variable _ _) = Inr []"
| "renderNode J T (Other _ _ _ _) = Inr []"

definition renderChildren :: "'n js \<Rightarrow> texts \<Rightarrow> 'n node list \<Rightarrow> js_error + string" where
  "renderChildren J T nodes = bindE (mapE (renderNode J T) nodes) (\<lambda>r. Inr (join_rendered r))"

text \<open>\<open>a || b\<close> on optional strings.\<close>

definition str_or :: "string option \<Rightarrow> string option \<Rightarrow> string option" where
  "str_or a b = (if str_truthy a then a else b)"

definition str_or_default :: "string option \<Rightarrow> string \<Rightarrow> string" where
  "str_or_default a d = (if str_truthy a then the a else d)"

definition getDocumentWrapper :: "string \<Rightarrow> string \<Rightarrow> string" where
  "getDocumentWrapper content doctype =
     (if doctype = ''slides''
      then ''<div class=\"reveal\">\<newline>                    <div class=\"slides\">\<newline>                        ''
           @ content @ ''\<newline>                    </div>\<newline>                </div>''
      else if doctype = ''paged''
      then ''<article class=\"paged-document\">\<newline>                    '' @ content
           @ ''\<newline>                </article>''
      else ''<main class=\"document-content\">\<newline>                    '' @ content
           @ ''\<newline>                </main>'')"

definition getExternalDependencies :: "render_options \<Rightarrow> string" where
  "getExternalDependencies opts =
     join ''\<newline>    ''
       ([''<link rel=\"stylesheet\" href=\"https://cdnjs.cloudflare.com/ajax/libs/KaTeX/0.16.8/katex.min.css\">'',
         ''<script src=\"https://cdnjs.cloudflare.com/ajax/libs/KaTeX/0.16.8/katex.min.js\"></script>'',
         ''<script src=\"https://cdnjs.cloudflare.com/ajax/libs/mermaid/10.6.1/mermaid.min.js\"></script>'',
         ''<link rel=\"stylesheet\" href=\"https://cdnjs.cloudflare.com/ajax/libs/highlight.js/11.9.0/styles/default.min.css\">'',
         ''<script src=\"https://cdnjs.cloudflare.com/ajax/libs/highlight.js/11.9.0/highlight.min.js\"></script>'']
        @ (if r_doctype opts = Some ''slides''
           then [''<link rel=\"stylesheet\" href=\"https://cdnjs.cloudflare.com/ajax/libs/reveal.js/4.6.1/reveal.min.css\">'',
                 ''<link rel=\"stylesheet\" href=\"https://cdnjs.cloudflare.com/ajax/libs/reveal.js/4.6.1/theme/white.min.css\">'',
                 ''<script src=\"https://cdnjs.cloudflare.com/ajax/libs/reveal.js/4.6.1/reveal.min.js\"></script>'']
           else []))"

definition getScripts :: "texts \<Rightarrow> render_options \<Rightarrow> string" where
  "getScripts T opts =
     scripts_common T
       @ (if r_doctype opts = Some ''slides'' then scripts_slides T else [])
       @ ''</script>''"

definition wrapWithDocument ::
  "'n js \<Rightarrow> texts \<Rightarrow> render_options \<Rightarrow> string \<Rightarrow> doc_metadata option \<Rightarrow> js_error + string" where
  "wrapWithDocument J T opts content meta =
     (let m = (case meta of
                 None \<Rightarrow> \<lparr>dm_title = None, dm_author = None, dm_language = None,
                          dm_doctype = None, dm_theme = None\<rparr>
               | Some x \<Rightarrow> x);
          title = str_or_default (dm_title m) ''Quarkdown Document'';
          author = str_or_default (dm_author m) [];
          language = str_or_default (dm_language m) ''en'';
          theme = str_or_default (str_or (dm_theme m) (r_theme opts)) ''default'';
          doctype = str_or_default (str_or (dm_doctype m) (r_doctype opts)) ''plain''
      in bindE (escapeHtml J title)
           (\<lambda>t. bindE (if author \<noteq> []
                        then bindE (escapeHtml J author)
                               (\<lambda>a. Inr (''<meta name=\"author\" content=\"'' @ a @ ''\">''))
                        else Inr [])
              (\<lambda>authorTag.
                 Inr (''<!DOCTYPE html>\<newline><html lang=\"'' @ language
                      @ ''\">\<newline><head>\<newline>    <meta charset=\"UTF-8\">\<newline>    <meta name=\"viewport\" content=\"width=device-width, initial-scale=1.0\">\<newline>    <title>''
                      @ t @ ''</title>\<newline>    '' @ authorTag
                      @ ''\<newline>    <style>\<newline>        '' @ base_styles T
                      @ ''\<newline>        '' @ theme_styles T theme
                      @ ''\<newline>        '' @ layout_styles T
                      @ ''\<newline>        '' @ doctype_styles T doctype
                      @ ''\<newline>    </style>\<newline>    '' @ getExternalDependencies opts
                      @ ''\<newline></head>\<newline><body class=\"quarkdown-document doctype-''
                      @ doctype @ '' theme-'' @ theme @ ''\">\<newline>    ''
                      @ getDocumentWrapper content doctype
                      @ ''\<newline>    '' @ getScripts T opts
                      @ ''\<newline></body>\<newline></html>''))))"

definition render ::
  "'n js \<Rightarrow> texts \<Rightarrow> 'n document \<Rightarrow> render_options \<Rightarrow> js_error + string" where
  "render J T doc opts =
     bindE (renderChildren J T (children doc))
       (\<lambda>bodyContent.
          if r_includeStyles opts \<noteq> Some False
          then wrapWithDocument J T opts bodyContent (doc_meta doc)
          else Inr bodyContent)"

section \<open>The compiler\<close>

record compile_metadata =
  m_title :: "string option"
  m_author :: "string option"
  m_language :: "string option"
  m_doctype :: string
  m_theme :: "string option"
  m_createdAt :: string

record compile_result =
  html :: string
  result_metadata :: compile_metadata
  result_errors :: "compile_error list"
  result_warnings :: "compile_warning list"

definition getDefaultMetadata :: "'n js \<Rightarrow> compile_metadata" where
  "getDefaultMetadata J =
     \<lparr>m_title = None, m_author = None, m_language = None, m_doctype = ''plain'',
      m_theme = None, m_createdAt = new_date J\<rparr>"

definition extractStringArgument :: "'n node list \<Rightarrow> nat \<Rightarrow> string option" where
  "extractStringArgument args index =
     (case at args index of Some (Text c _) \<Rightarrow> Some c | _ \<Rightarrow> None)"

definition extractMetadata_step :: "'n node \<Rightarrow> compile_metadata \<Rightarrow> compile_metadata" where
  "extractMetadata_step node m =
     (case node of
        FunctionCall name args _ _ _ \<Rightarrow>
          if name = ''docname'' then m\<lparr>m_title := extractStringArgument args 0\<rparr>
          else if name = ''docauthor'' then m\<lparr>m_author := extractStringArgument args 0\<rparr>
          else if name = ''doclang'' then m\<lparr>m_language := extractStringArgument args 0\<rparr>
          else if name = ''doctype'' then
            (let doctype = extractStringArgument args 0 in
             if str_truthy doctype \<and> the doctype \<in> set [''slides'', ''paged'', ''plain'']
             then m\<lparr>m_doctype := the doctype\<rparr> else m)
          else if name = ''theme'' then m\<lparr>m_theme := extractStringArgument args 0\<rparr>
          else m
      | _ \<Rightarrow> m)"

definition extractMetadata :: "'n js \<Rightarrow> 'n document \<Rightarrow> 'n execution_context \<Rightarrow> compile_metadata" where
  "extractMetadata J doc ctx = fold extractMetadata_step (children doc) (getDefaultMetadata J)"

definition runtime_error :: "js_error \<Rightarrow> compile_error" where
  "runtime_error error =
     \<lparr>e_message = ''Compilation failed: '' @ error_message error, e_line = None,
      e_column = None, e_type = Runtime\<rparr>"

text \<open>
  The \<open>try\<close> block of \<open>compile\<close>. Its outcome is the list \<open>errors\<close> as the block leaves
  it, with what the block returned (\<open>Inr\<close>) or threw (\<open>Inl\<close>). The list \<open>warnings\<close> is
  written once, after the rendering.
\<close>

definition compile_try ::
  "'n js \<Rightarrow> texts \<Rightarrow> string \<Rightarrow> compile_options \<Rightarrow> compile_error list \<Rightarrow> compile_warning list
     \<Rightarrow> (compile_error list \<times> (js_error + compile_result)) option" where
  "compile_try J T source options errs warns =
     (let parseResult = parse J source;
          errs1 = (if errors parseResult \<noteq> [] then errs @ errors parseResult else errs)
      in if errors parseResult \<noteq> [] \<and> o_strict options = Some True
         then Some (errs1, Inr \<lparr>html = [], result_metadata = getDefaultMetadata J,
                                 result_errors = errs1, result_warnings = warns\<rparr>)
         else
           (let ctx = new_context J options;
                meta = extractMetadata J (ast parseResult) ctx
            in case executeDocument J (ast parseResult) ctx of
                 None \<Rightarrow> None
               | Some (Inl e) \<Rightarrow> Some (errs1, Inl e)
               | Some (Inr (expandedAst, ctx1)) \<Rightarrow>
                   (case render J T expandedAst
                           \<lparr>r_doctype = Some (m_doctype meta), r_theme = m_theme meta,
                            r_outputFormat = o_outputFormat options, r_includeStyles = None,
                            r_minify = None\<rparr> of
                      Inl e \<Rightarrow> Some (errs1, Inl e)
                    | Inr h \<Rightarrow>
                        Some (errs1, Inr \<lparr>html = h, result_metadata = meta,
                                          result_errors = errs1,
                                          result_warnings = warns @ getWarnings ctx1\<rparr>))))"

text \<open>\<open>compile\<close>; \<open>None\<close> when the expansion never returns.\<close>

definition compile :: "'n js \<Rightarrow> texts \<Rightarrow> string \<Rightarrow> compile_options \<Rightarrow> compile_result option" where
  "compile J T source options =
     (let errs = []; warns = [] in
      case compile_try J T source options errs warns of
        None \<Rightarrow> None
      | Some (errs1, Inr r) \<Rightarrow> Some r
      | Some (errs1, Inl error) \<Rightarrow>
          Some \<lparr>html = [], result_metadata = getDefaultMetadata J,
                result_errors = errs1 @ [runtime_error error], result_warnings = warns\<rparr>)"

subsection \<open>Diagnostics\<close>

record position =
  p_line :: nat
  p_character :: nat

record range =
  r_start :: position
  r_end :: position

record diagnostic =
  d_range :: range
  d_message :: string
  d_severity :: nat
  d_source :: string

text \<open>An issue is an error or a warning; its \<open>type\<close> is the string the source compares.\<close>

type_synonym issue = "compile_error + compile_warning"

fun error_type_name :: "error_type \<Rightarrow> string" where
  "error_type_name Syntax = ''syntax''"
| "error_type_name Semantic = ''semantic''"
| "error_type_name Runtime = ''runtime''"

fun warning_type_name :: "warning_type \<Rightarrow> string" where
  "warning_type_name Deprecation = ''deprecation''"
| "warning_type_name Performance = ''performance''"
| "warning_type_name Style = ''style''"

definition issue_type :: "issue \<Rightarrow> string" where
  "issue_type i = (case i of Inl e \<Rightarrow> error_type_name (e_type e) | Inr w \<Rightarrow> warning_type_name (w_type w))"

definition issue_message :: "issue \<Rightarrow> string" where
  "issue_message i = (case i of Inl e \<Rightarrow> e_message e | Inr w \<Rightarrow> w_message w)"

definition issue_line :: "issue \<Rightarrow> nat option" where
  "issue_line i = (case i of Inl e \<Rightarrow> e_line e | Inr w \<Rightarrow> w_line w)"

definition issue_column :: "issue \<Rightarrow> nat option" where
  "issue_column i = (case i of Inl e \<Rightarrow> e_column e | Inr w \<Rightarrow> w_column w)"

text \<open>\<open>x || 0\<close> for an optional line or column.\<close>

definition or_zero :: "nat option \<Rightarrow> nat" where
  "or_zero x = (case x of None \<Rightarrow> 0 | Some n \<Rightarrow> n)"

definition toDiagnostic :: "issue \<Rightarrow> diagnostic" where
  "toDiagnostic i =
     \<lparr>d_range =
        \<lparr>r_start = \<lparr>p_line = or_zero (issue_line i), p_character = or_zero (issue_column i)\<rparr>,
         r_end = \<lparr>p_line = or_zero (issue_line i),
                  p_character = or_zero (issue_column i) + 10\<rparr>\<rparr>,
      d_message = issue_message i,
      d_severity = (if issue_type i = ''syntax'' \<or> issue_type i = ''semantic'' then 1 else 2),
      d_source = ''quarkdown''\<rparr>"

definition result_issues :: "compile_result \<Rightarrow> issue list" where
  "result_issues r = map Inl (result_errors r) @ map Inr (result_warnings r)"

definition getDiagnostics :: "'n js \<Rightarrow> texts \<Rightarrow> string \<Rightarrow> diagnostic list option" where
  "getDiagnostics J T source =
     (case compile J T source
             \<lparr>o_doctype = None, o_theme = None, o_outputFormat = None, o_strict = Some False,
              o_includePaths = None\<rparr> of
        None \<Rightarrow> None
      | Some r \<Rightarrow> Some (map toDiagnostic (result_issues r)))"

section \<open>A host to run examples\<close>

text \<open>
  A small host on which the definitions can be evaluated. Its numbers are the integers and
  \<open>NaN\<close>; it reads and prints decimal integers as JavaScript does, its constants are cut to
  integers, its tokenizer puts the whole input into one paragraph, and its DOM replaces
  \<open>&\<close>, \<open><\<close> and \<open>>\<close>.
\<close>

datatype znum = NaN | Z int

definition z_parse :: "string \<Rightarrow> znum" where
  "z_parse s =
     (let t = dropWhile is_space s;
          neg = (take 1 t = ''-'');
          u = (if take 1 t = ''-'' \<or> take 1 t = ''+'' then drop 1 t else t);
          ds = takeWhile is_digit u;
          v = foldl (\<lambda>a c. 10 * a + (int (of_char c) - 48)) 0 ds
      in if ds = [] then NaN else Z (if neg then - v else v))"

fun nat_digits :: "nat \<Rightarrow> string" where
  "nat_digits n =
     (if n < 10 then [char_of (48 + n)]
      else nat_digits (n div 10) @ [char_of (48 + n mod 10)])"

fun z_toString :: "znum \<Rightarrow> string" where
  "z_toString NaN = ''NaN''"
| "z_toString (Z i) = (if i < 0 then CHR ''-'' # nat_digits (nat (- i)) else nat_digits (nat i))"

fun z_lift :: "(int \<Rightarrow> int \<Rightarrow> int) \<Rightarrow> znum \<Rightarrow> znum \<Rightarrow> znum" where
  "z_lift f (Z a) (Z b) = Z (f a b)"
| "z_lift f _ _ = NaN"

fun z_pow :: "znum \<Rightarrow> znum \<Rightarrow> znum" where
  "z_pow (Z a) (Z b) = (if 0 \<le> b then Z (a ^ nat b) else NaN)"
| "z_pow _ _ = NaN"

fun z_lt :: "znum \<Rightarrow> znum \<Rightarrow> bool" where
  "z_lt (Z a) (Z b) = (a < b)"
| "z_lt _ _ = False"

fun z_toFixed :: "znum \<Rightarrow> znum \<Rightarrow> js_error + string" where
  "z_toFixed x (Z d) =
     (if 0 \<le> d \<and> d \<le> 100
      then Inr (z_toString x @ (if x \<noteq> NaN \<and> 0 < d then CHR ''.'' # replicate (nat d) CHR ''0'' else []))
      else Inl (RangeError ''toFixed() digits argument must be between 0 and 100''))"
| "z_toFixed x NaN = Inr (z_toString x)"

definition ascii_upper :: "string \<Rightarrow> string" where
  "ascii_upper s = map (\<lambda>c. if is_lower c then char_of (of_char c - (32::nat)) else c) s"

definition ascii_lower :: "string \<Rightarrow> string" where
  "ascii_lower s = map (\<lambda>c. if is_upper c then char_of (of_char c + (32::nat)) else c) s"

definition escape3 :: "string \<Rightarrow> string" where
  "escape3 s =
     concat (map (\<lambda>c. if c = CHR ''&'' then ''&amp;''
                       else if c = CHR ''<'' then ''&lt;''
                       else if c = CHR ''>'' then ''&gt;''
                       else [c]) s)"

definition one_paragraph :: "string \<Rightarrow> js_error + token list" where
  "one_paragraph s =
     (if s = [] then Inr []
      else Inr [(new_token ''paragraph_open'' ''p'' 1)\<lparr>tmap := Some (Some 0, Some 1)\<rparr>,
                (new_token ''inline'' [] 0)\<lparr>tmap := Some (Some 0, Some 1), tcontent := s\<rparr>,
                new_token ''paragraph_close'' ''p'' (- 1)])"

definition js0 :: "znum js" where
  "js0 =
     \<lparr>parseFloat = z_parse, parseInt = z_parse, isNaN = (\<lambda>x. x = NaN),
      is_zero = (\<lambda>x. x = Z 0), num_lit = (\<lambda>n. Z (int n)),
      num_add = z_lift (+), num_mul = z_lift (*), num_pow = z_pow, num_lt = z_lt,
      numToString = z_toString, toFixed = z_toFixed,
      toUpperCase = ascii_upper, toLowerCase = ascii_lower,
      json_stringify = (\<lambda>n. ''{}''), dom_escape = Some escape3,
      msg_undefined_read =
        (\<lambda>p. ''Cannot read properties of undefined (reading '' @ [CHR 0x27] @ p @ [CHR 0x27] @ '')''),
      math_pi = Z 3, math_e = Z 2,
      date_today = ''11/2/2026'', date_now = ''11/2/2026, 12:00:00 AM'',
      date_year = Z 2026, date_month = Z 11, date_day = Z 2,
      new_date = ''2026-11-02T00:00:00.000Z'',
      md_parse = one_paragraph\<rparr>"

definition texts0 :: texts where
  "texts0 =
     \<lparr>icon_note = [], icon_tip = [], icon_warning = [], icon_info = [], base_styles = [],
      theme_styles = (\<lambda>t. []), layout_styles = [], doctype_styles = (\<lambda>d. []),
      scripts_common = ''<script>'', scripts_slides = []\<rparr>"

section \<open>Notions of the specification\<close>

text \<open>
  The specification's call syntax after an identifier: an opening brace, or a named
  parameter \<open>ident:{\<close>, before which blanks are allowed here. The parser has no counterpart
  of the second; the definition follows the specification's words.
\<close>

definition spec_named_parameter :: "string \<Rightarrow> bool" where
  "spec_named_parameter s =
     (case match_identifier s of
        None \<Rightarrow> False
      | Some ident \<Rightarrow> take 2 (drop (length ident) s) = '':{'')"

definition spec_call_syntax :: "string \<Rightarrow> bool" where
  "spec_call_syntax rest =
     (take 1 rest = ''{'' \<or> spec_named_parameter (dropWhile (\<lambda>c. c = CHR '' '') rest))"

text \<open>
  The type of the token that one step of the inline tokenizer pushes at position \<open>p\<close> of
  \<open>s\<close>, with the rules installed by \<open>setupQuarkdownRules\<close>.
\<close>

definition inline_state_at :: "string \<Rightarrow> nat \<Rightarrow> inline_state" where
  "inline_state_at s p = \<lparr>src = s, pos = p, posMax = length s, sline = None, pushed = []\<rparr>"

definition classify :: "string \<Rightarrow> nat \<Rightarrow> string option" where
  "classify s p =
     (case setupQuarkdownRules default_inline_ruler of
        None \<Rightarrow> None
      | Some r \<Rightarrow>
          (case tokenize_step r (inline_state_at s p) of
             Decided st \<Rightarrow> map_option ttype (at (pushed st) 0)
           | _ \<Rightarrow> None))"

section \<open>Inputs and notions used by the statements\<close>

text \<open>The options of a call \<open>compile(source)\<close> without options.\<close>

definition no_options :: compile_options where
  "no_options = \<lparr>o_doctype = None, o_theme = None, o_outputFormat = None, o_strict = None,
      o_includePaths = None\<rparr>"

text \<open>
  A context in which a scope is active and binds \<open>x\<close>, built with the public methods
  \<open>pushScope\<close> and \<open>setScopedVariable\<close>.
\<close>

definition shadowing_context :: "znum execution_context" where
  "shadowing_context =
     setScopedVariable (pushScope (new_context js0 no_options)) ''x'' (VString ''1'')"

text \<open>
  Two variants of the example host: one whose tokenizer throws, and one without a
  \<open>document\<close>, as in a process that is not a browser.
\<close>

definition js_failing :: "znum js" where
  "js_failing = js0\<lparr>md_parse := (\<lambda>s. Inl (Error ''boom''))\<rparr>"


section \<open>Auxiliary facts\<close>

lemma stdlib_hasFunction_names: "stdlib_hasFunction J name \<longleftrightarrow> name \<in> set stdlib_names"
  by (simp add: stdlib_hasFunction_def stdlib_functions_def stdlib_names_def)

lemma call_if: "executeFunctionCall J ''if'' args body ctx = stdlib_if J args body ctx"
  by (simp add: executeFunctionCall_def stdlib_hasFunction_names stdlib_names_def
      stdlib_executeFunction_def stdlib_functions_def)

lemma call_var: "executeFunctionCall J ''var'' args body ctx = stdlib_var J args body ctx"
  by (simp add: executeFunctionCall_def stdlib_hasFunction_names stdlib_names_def
      stdlib_executeFunction_def stdlib_functions_def)

lemma call_repeat:
  "executeFunctionCall J ''repeat'' args body ctx = stdlib_repeat J args body ctx"
  by (simp add: executeFunctionCall_def stdlib_hasFunction_names stdlib_names_def
      stdlib_executeFunction_def stdlib_functions_def)

lemma call_add: "executeFunctionCall J ''add'' args body ctx = stdlib_add J args body ctx"
  by (simp add: executeFunctionCall_def stdlib_hasFunction_names stdlib_names_def
      stdlib_executeFunction_def stdlib_functions_def)

lemma call_multiply:
  "executeFunctionCall J ''multiply'' args body ctx = stdlib_multiply J args body ctx"
  by (simp add: executeFunctionCall_def stdlib_hasFunction_names stdlib_names_def
      stdlib_executeFunction_def stdlib_functions_def)

lemma call_pow: "executeFunctionCall J ''pow'' args body ctx = stdlib_pow J args body ctx"
  by (simp add: executeFunctionCall_def stdlib_hasFunction_names stdlib_names_def
      stdlib_executeFunction_def stdlib_functions_def)

lemma js0_fields:
  "parseFloat js0 = z_parse" "isNaN js0 = (\<lambda>x. x = NaN)" "is_zero js0 = (\<lambda>x. x = Z 0)"
  "num_lit js0 = (\<lambda>n. Z (int n))" "num_add js0 = z_lift (+)" "num_mul js0 = z_lift (*)"
  "num_pow js0 = z_pow" "num_lt js0 = z_lt" "numToString js0 = z_toString"
  "dom_escape js0 = Some escape3" "md_parse js0 = one_paragraph"
  by (simp_all add: js0_def)

lemma js0_numbers:
  "z_parse ''2'' = Z 2" "z_parse ''3'' = Z 3" "z_parse ''5'' = Z 5" "z_parse ''6'' = Z 6"
  "z_parse ''hello'' = NaN"
  "z_toString (Z 2) = ''2''" "z_toString (Z 5) = ''5''" "z_toString (Z 6) = ''6''"
  "escape3 ''a.png'' = ''a.png''"
  by code_simp+

lemma js0_preprocess_add:
  "preprocessQuarkdownSyntax js0 ''.add {5} to:{3}'' = ''{{FUNCTION:add:5}} to:{3}''"
  by code_simp

lemma js0_preprocess_title: "preprocessQuarkdownSyntax js0 ''# title'' = ''# title''"
  by code_simp








section \<open>The parser's classification of dotted identifiers\<close>

lemma setup_default:
  "setupQuarkdownRules default_inline_ruler =
     Some ((''quarkdown_function'', QuarkdownFunction) # (''quarkdown_variable'', QuarkdownVariable)
           # (''quarkdown_math'', Opaque) # (''text'', Opaque) #
           map (\<lambda>n. (n, Opaque)) [''linkify'', ''newline'', ''escape'', ''backticks'',
             ''strikethrough'', ''emphasis'', ''link'', ''quarkdown_image'', ''image'', ''autolink'',
             ''html_inline'', ''entity''])"
  by (simp add: setupQuarkdownRules_def default_inline_ruler_def)

text \<open>
  C1, as stated, fails: in \<open>.x y\<close> the identifier is followed by a blank and then by no
  brace and no named parameter, and the tokenizer still pushes a function call token.
\<close>

theorem dotted_identifier_before_blank_is_call:
  "classify ''.x y'' 0 = Some ''quarkdown_function_open'' \<and> \<not> spec_call_syntax (drop 2 ''.x y'')"
  by (simp add: classify_def setup_default inline_state_at_def parseFunctionCall_def
      charAt_def match_identifier_def is_ident_start_def is_ident_char_def is_lower_def
      is_upper_def is_digit_def push_def new_token_def at_def spec_call_syntax_def
      spec_named_parameter_def)

text \<open>
  C1, amended: at a dot followed by an identifier, the variable rule accepts exactly when
  the character after the identifier is neither an opening brace nor a blank; and when it is
  one of the two, the variable rule rejects and the tokenizer pushes a function call token
  carrying the identifier, whatever follows.
\<close>

theorem brace_or_blank_decides_variable_rule:
  assumes dot: "charAt (src st) (pos st) = Some CHR ''.''"
    and ident: "match_identifier (drop (pos st + 1) (src st)) = Some name"
    and r: "setupQuarkdownRules default_inline_ruler = Some r"
  shows "(fst (parseVariable st silent) \<longleftrightarrow>
            charAt (src st) (pos st + 1 + length name) \<notin> {Some CHR ''{'', Some CHR '' ''}) \<and>
         (charAt (src st) (pos st + 1 + length name) \<in> {Some CHR ''{'', Some CHR '' ''} \<longrightarrow>
            parseVariable st False = (False, st) \<and>
            tokenize_step r st =
              Decided ((push st ((new_token ''quarkdown_function_open'' [] 0)
                          \<lparr>markup := ''.'', info := name, tmap := Some (sline st, sline st)\<rparr>))
                       \<lparr>pos := pos st + 1 + length name\<rparr>))"
proof -
  have fc: "parseFunctionCall st False =
      (True, (push st ((new_token ''quarkdown_function_open'' [] 0)
                          \<lparr>markup := ''.'', info := name, tmap := Some (sline st, sline st)\<rparr>))
                       \<lparr>pos := pos st + 1 + length name\<rparr>)"
    using dot ident by (simp add: parseFunctionCall_def Let_def)
  have r': "r = (''quarkdown_function'', QuarkdownFunction) # tl r"
    using r unfolding setup_default by auto
  have ts: "tokenize_step r st = Decided ((push st ((new_token ''quarkdown_function_open'' [] 0)
                          \<lparr>markup := ''.'', info := name, tmap := Some (sline st, sline st)\<rparr>))
                       \<lparr>pos := pos st + 1 + length name\<rparr>)"
    by (subst r') (simp add: fc)
  show ?thesis using dot ident ts by (auto simp: parseVariable_def Let_def)
qed

theorem brace_or_blank_decides_variable_rule_witness:
  "(fst (parseVariable (inline_state_at ''.x y'' 0) False) \<longleftrightarrow> False) \<and>
   tokenize_step (the (setupQuarkdownRules default_inline_ruler)) (inline_state_at ''.x y'' 0) =
     Decided \<lparr>src = ''.x y'', pos = 2, posMax = 4, sline = None,
       pushed = [\<lparr>ttype = ''quarkdown_function_open'', tag = [], nesting = 0, attrs = [],
                  tmap = Some (None, None), tcontent = [], markup = ''.'', info = ''x''\<rparr>]\<rparr>"
  using brace_or_blank_decides_variable_rule [of "inline_state_at ''.x y'' 0" "''x''"
      "the (setupQuarkdownRules default_inline_ruler)" False]
  by (simp add: setup_default inline_state_at_def charAt_def match_identifier_def
      is_ident_start_def is_ident_char_def is_lower_def is_upper_def is_digit_def push_def
      new_token_def)

section \<open>Failures of the parser\<close>

text \<open>
  C3: \<open>parse\<close> returns a result for every input. When the tokenizer throws, the result
  carries exactly one error, of type syntax, whose message is that of the thrown error
  behind \<open>Parse error: \<close>, and the tree is a document without children. When it does not
  throw, the result is the tree built from the tokens, with no error.
\<close>

theorem parse_failure_yields_one_syntax_error:
  "(md_parse J (preprocessQuarkdownSyntax J source) = Inl e \<longrightarrow>
      parse J source =
        \<lparr>ast = \<lparr>children = [], doc_meta = None\<rparr>,
         errors = [\<lparr>e_message = ''Parse error: '' @ error_message e, e_line = None,
                    e_column = None, e_type = Syntax\<rparr>]\<rparr>) \<and>
   (md_parse J (preprocessQuarkdownSyntax J source) = Inr tokens \<longrightarrow>
      parse J source = \<lparr>ast = tokensToAST J tokens [], errors = []\<rparr>)"
  by (simp add: parse_def parse_try_def bindE_def)

theorem parse_failure_yields_one_syntax_error_witness:
  "parse js_failing ''# title'' =
           \<lparr>ast = \<lparr>children = [], doc_meta = None\<rparr>,
            errors = [\<lparr>e_message = ''Parse error: boom'', e_line = None,
                       e_column = None, e_type = Syntax\<rparr>]\<rparr> \<and>
   parse js0 ''# title'' =
     \<lparr>ast = \<lparr>children =
               [Text ''# title'' (Some \<lparr>loc_line = Some 0, loc_column = 0, loc_offset = 0\<rparr>)],
             doc_meta = None\<rparr>,
      errors = []\<rparr>"
proof -
  have a: "md_parse js_failing (preprocessQuarkdownSyntax js_failing ''# title'') =
             Inl (Error ''boom'')"
    by (simp add: js_failing_def)
  have b: "md_parse js0 (preprocessQuarkdownSyntax js0 ''# title'') =
     Inr [(new_token ''paragraph_open'' ''p'' 1)\<lparr>tmap := Some (Some 0, Some 1)\<rparr>,
          (new_token ''inline'' [] 0)\<lparr>tmap := Some (Some 0, Some 1), tcontent := ''# title''\<rparr>,
          new_token ''paragraph_close'' ''p'' (- 1)]"
    by (simp add: js0_preprocess_title js0_fields one_paragraph_def)
  show ?thesis
    using parse_failure_yields_one_syntax_error
        [of js_failing "''# title''" "Error ''boom''", THEN conjunct1, THEN mp, OF a]
      parse_failure_yields_one_syntax_error
        [of js0 "''# title''" _
          "[(new_token ''paragraph_open'' ''p'' 1)\<lparr>tmap := Some (Some 0, Some 1)\<rparr>,
            (new_token ''inline'' [] 0)\<lparr>tmap := Some (Some 0, Some 1),
               tcontent := ''# title''\<rparr>,
            new_token ''paragraph_close'' ''p'' (- 1)]", THEN conjunct2, THEN mp, OF b]
    by (simp add: tokensToAST_def List.map_filter_def tokenToASTNode_def new_token_def
        token_location_def)
qed

section \<open>Unknown functions and undefined variables\<close>

text \<open>
  C4, on the code: the expansion descends into paragraphs, headings, lists and blockquotes
  only, and does not expand what a function returns. A reference to an unbound variable
  inside an emphasis, a call of an unknown function inside a list item, and a reference in
  the body that \<open>if\<close> returns all stay in the tree, and no warning is recorded for them.
  In the document of a paragraph that holds the reference twice, once directly and once
  inside an emphasis, the first becomes the text \<open>{{name}}\<close> with its one warning and the
  second is left as it is.
\<close>

theorem unknown_names_in_unvisited_nodes_pass_silently:
  "executeNode J (Emphasis strong [Variable x l] le) ctx =
     Some (Inr (RNode (Emphasis strong [Variable x l] le), ctx)) \<and>
   executeNode J (ListNode ordered [ListItem [FunctionCall f args named body l] li] ll) ctx =
     Some (Inr (RNode (ListNode ordered [ListItem [FunctionCall f args named body l] li] ll),
                ctx)) \<and>
   executeChildren js0
     [FunctionCall ''if'' [Text ''true'' None] [] [Variable ''name'' None] None]
     (new_context js0 no_options) =
     Some (Inr ([Variable ''name'' None], new_context js0 no_options)) \<and>
   executeChildren js0
     [Paragraph [Variable ''name'' None, Emphasis True [Variable ''name'' None] None] None]
     (new_context js0 no_options) =
     Some (Inr ([Paragraph [Text ''{{name}}'' None, Emphasis True [Variable ''name'' None] None]
                   None],
                \<lparr>variables = variables (new_context js0 no_options),
                 metadata = Map.empty, userFunctions = Map.empty,
                 warnings = [\<lparr>w_message = ''Undefined variable: name'', w_line = None,
                              w_column = None, w_type = Style\<rparr>],
                 namedArgs = [], ctx_options = no_options, scopeStack = []\<rparr>))"
  by (simp add: ok_def call_if stdlib_if_def evaluateCondition_def getTextFromArg_def at_def
      bindE_def lift_def resolveVariable_def getVariable_def map_get_def new_context_def
      addWarning_def)

section \<open>The binary math functions\<close>

text \<open>
  C2, on the code: the calls \<open>.add {5} to:{3}\<close>, \<open>.multiply {6} by:{3}\<close> and
  \<open>.pow {2} to:{3}\<close>, expanded in a fresh context, yield the texts 5, 6 and 2, not 8, 18
  and 8: the named arguments of the node never reach the context the functions read them
  from, and the expansion of a call does not depend on them at all. Through \<open>parse\<close> the
  call is not even built: the first pass rewrites it into a marker, and the document
  \<open>.add {5} to:{3}\<close> becomes one text node holding the marker.
\<close>

theorem named_arguments_never_reach_math_functions:
  "executeNode js0 (FunctionCall ''add'' [Text ''5'' None] [(''to'', Text ''3'' None)] [] None)
     (new_context js0 no_options) =
     Some (Inr (RNode (Text ''5'' None), new_context js0 no_options)) \<and>
   executeNode js0 (FunctionCall ''multiply'' [Text ''6'' None] [(''by'', Text ''3'' None)] [] None)
     (new_context js0 no_options) =
     Some (Inr (RNode (Text ''6'' None), new_context js0 no_options)) \<and>
   executeNode js0 (FunctionCall ''pow'' [Text ''2'' None] [(''to'', Text ''3'' None)] [] None)
     (new_context js0 no_options) =
     Some (Inr (RNode (Text ''2'' None), new_context js0 no_options)) \<and>
   (\<forall>J f args named named' body l ctx.
      executeNode J (FunctionCall f args named body l) ctx =
      executeNode J (FunctionCall f args named' body l) (ctx :: 'n execution_context)) \<and>
   children (ast (parse js0 ''.add {5} to:{3}'')) =
     [Text ''{{FUNCTION:add:5}} to:{3}''
        (Some \<lparr>loc_line = Some 0, loc_column = 0, loc_offset = 0\<rparr>)]"
proof -
  have n: "namedArgs (new_context js0 no_options) = []" by (simp add: new_context_def)
  have p: "children (ast (parse js0 ''.add {5} to:{3}'')) =
     [Text ''{{FUNCTION:add:5}} to:{3}''
        (Some \<lparr>loc_line = Some 0, loc_column = 0, loc_offset = 0\<rparr>)]"
    by (simp add: parse_def parse_try_def js0_preprocess_add js0_fields one_paragraph_def
        bindE_def tokensToAST_def List.map_filter_def tokenToASTNode_def new_token_def
        token_location_def)
  show ?thesis
    by (simp add: call_add call_multiply call_pow stdlib_add_def stdlib_multiply_def
        stdlib_pow_def getNumberFromNode_def getTextFromArg_def at_def bindE_def lift_def
        num_or_def num_truthy_def getNumberArg_def n js0_fields js0_numbers p
        del: z_toString.simps)
qed

section \<open>The condition of \<open>if\<close>\<close>

text \<open>
  C5, as stated, fails: with \<open>flag\<close> set to the string \<open>false\<close>, \<open>.if {.flag}\<close> keeps its
  body; and with the condition \<open>hello\<close>, a string that is not empty, \<open>if\<close> drops its body.
\<close>

theorem if_on_string_false_keeps_body:
  "executeChildren js0
     [FunctionCall ''if'' [Text ''.flag'' None] [] [Text ''shown'' None] None]
     (setVariable (new_context js0 no_options) ''flag'' (VString ''false'')) =
   Some (Inr ([Text ''shown'' None],
              setVariable (new_context js0 no_options) ''flag'' (VString ''false''))) \<and>
   executeChildren js0
     [FunctionCall ''if'' [Text ''hello'' None] [] [Text ''shown'' None] None]
     (new_context js0 no_options) =
   Some (Inr ([], new_context js0 no_options))"
  by (simp add: call_if stdlib_if_def evaluateCondition_def getTextFromArg_def at_def bindE_def
      lift_def ok_def getVariable_def setVariable_def new_context_def map_get_def
      js0_fields js0_numbers)

text \<open>
  C5, amended: a condition \<open>.x\<close> keeps the body exactly when the value of \<open>x\<close> is truthy in
  the sense of JavaScript, without error or warning in either case. So the body is kept for
  the string \<open>true\<close> and dropped for an unset variable, and for a string value it is kept
  exactly when the string is not empty, the string \<open>false\<close> included. A condition without
  leading dot is true for \<open>true\<close>, false for \<open>false\<close>, and otherwise true exactly when it
  parses to a number that is not zero; any other text is false.
\<close>

theorem if_condition_follows_truthiness:
  "executeNode J (FunctionCall ''if'' (Text (CHR ''.'' # x) la # others) named body l) ctx =
     Some (Inr (if truthy J (getVariable ctx x) then RNodes body else RNull, ctx)) \<and>
   (getVariable ctx x = VString ''true'' \<longrightarrow>
      executeNode J (FunctionCall ''if'' (Text (CHR ''.'' # x) la # others) named body l) ctx =
        Some (Inr (RNodes body, ctx))) \<and>
   (getVariable ctx x = VUndefined \<longrightarrow>
      executeNode J (FunctionCall ''if'' (Text (CHR ''.'' # x) la # others) named body l) ctx =
        Some (Inr (RNull, ctx))) \<and>
   (\<forall>s. getVariable ctx x = VString s \<longrightarrow>
      executeNode J (FunctionCall ''if'' (Text (CHR ''.'' # x) la # others) named body l) ctx =
        Some (Inr (if s = [] then RNull else RNodes body, ctx))) \<and>
   (\<forall>t. take 1 t \<noteq> ''.'' \<longrightarrow>
      evaluateCondition J (Some (Text t la)) ctx =
        Inr (if t = ''true'' then True else if t = ''false'' then False
             else \<not> isNaN J (parseFloat J t) \<and> \<not> is_zero J (parseFloat J t)))"
  by (auto simp: call_if stdlib_if_def evaluateCondition_def getTextFromArg_def at_def bindE_def
      lift_def Let_def)

theorem if_condition_follows_truthiness_witness:
  "executeNode js0 (FunctionCall ''if'' [Text ''.flag'' None] [] [Text ''shown'' None] None)
       (setVariable (new_context js0 no_options) ''flag'' (VString ''true'')) =
     Some (Inr (RNodes [Text ''shown'' None],
                setVariable (new_context js0 no_options) ''flag'' (VString ''true''))) \<and>
   executeNode js0 (FunctionCall ''if'' [Text ''.flag'' None] [] [Text ''shown'' None] None)
       (new_context js0 no_options) = Some (Inr (RNull, new_context js0 no_options)) \<and>
   evaluateCondition js0 (Some (Text ''hello'' None)) (new_context js0 no_options) = Inr False"
proof -
  let ?c = "setVariable (new_context js0 no_options) ''flag'' (VString ''true'')"
  have a: "getVariable ?c ''flag'' = VString ''true''"
    by (simp add: getVariable_def setVariable_def new_context_def map_get_def)
  have b: "getVariable (new_context js0 no_options) ''flag'' = VUndefined"
    by (simp add: getVariable_def new_context_def map_get_def)
  have c: "parseFloat js0 ''hello'' = NaN"
    by (simp add: js0_fields js0_numbers)
  show ?thesis
    using if_condition_follows_truthiness [where J = js0 and x = "''flag''" and ctx = ?c
        and la = None and others = "[]" and named = "[]" and body = "[Text ''shown'' None]"
        and l = None]
      if_condition_follows_truthiness [where J = js0 and x = "''flag''"
        and ctx = "new_context js0 no_options" and la = None and others = "[]"
        and named = "[]" and body = "[Text ''shown'' None]" and l = None]
      a b c
    by (simp add: js0_fields)
qed

section \<open>The function \<open>var\<close>\<close>

text \<open>
  C6, as stated, fails: when a scope is active and binds \<open>x\<close>, \<open>.var {x} {5}\<close> leaves the
  scope as it is and writes the global variables, and the reference to \<open>x\<close> that follows
  renders the value of the scope, 1.
\<close>

theorem var_writes_globals_under_active_scope:
  "executeChildren js0
     [FunctionCall ''var'' [Text ''x'' None, Text ''5'' None] [] [] None, Variable ''x'' None]
     shadowing_context =
   Some (Inr ([Text ''1'' None], setVariable shadowing_context ''x'' (VString ''5''))) \<and>
   scopeStack (setVariable shadowing_context ''x'' (VString ''5'')) = [[''x'' \<mapsto> VString ''1'']]"
  by (simp add: call_var stdlib_var_def getTextFromArg_def at_def bindE_def
      lift_def ok_def getVariable_def setVariable_def new_context_def map_get_def
      shadowing_context_def setScopedVariable_def pushScope_def resolveVariable_def)

text \<open>
  C6, amended: \<open>var\<close> stores the text of its second argument (the empty string when there
  is none) under the text of its first argument in the global variables of the context,
  changes nothing else, the scope stack included, and returns nothing. When no active scope
  binds the name, \<open>.var {name} {v}\<close> followed by a reference to the name yields the text
  \<open>v\<close>.
\<close>

theorem var_stores_in_global_variables:
  "executeNode J (FunctionCall ''var'' (a # others) named body l) ctx =
     Some (Inr (RNull,
       ctx\<lparr>variables := (variables ctx)
             (getTextFromNode a \<mapsto>
                VString (case others of [] \<Rightarrow> [] | b # _ \<Rightarrow> getTextFromNode b))\<rparr>)) \<and>
   (scopeStack ctx = [] \<or> last (scopeStack ctx) name = None \<longrightarrow>
      executeChildren J
        [FunctionCall ''var'' [Text name la, Text v lb] named body l, Variable name lc] ctx =
      Some (Inr ([Text v None], ctx\<lparr>variables := (variables ctx)(name \<mapsto> VString v)\<rparr>)))"
  by (cases others)
     (auto simp: call_var stdlib_var_def getTextFromArg_def at_def bindE_def lift_def ok_def
      setVariable_def resolveVariable_def getVariable_def map_get_def Let_def)

theorem var_stores_in_global_variables_witness:
  "executeChildren js0
        [FunctionCall ''var'' [Text ''x'' None, Text ''5'' None] [] [] None, Variable ''x'' None]
        (new_context js0 no_options) =
      Some (Inr ([Text ''5'' None],
        (new_context js0 no_options)\<lparr>variables :=
           (variables (new_context js0 no_options))(''x'' \<mapsto> VString ''5'')\<rparr>))"
proof -
  have h: "scopeStack (new_context js0 no_options) = [] \<or>
           last (scopeStack (new_context js0 no_options)) ''x'' = None"
    by (simp add: new_context_def)
  show ?thesis
    using var_stores_in_global_variables [where J = js0 and ctx = "new_context js0 no_options"
      and name = "''x''" and v = "''5''" and la = None and lb = None and lc = None
      and named = "[]" and body = "[]" and l = None, THEN conjunct2, THEN mp, OF h] .
qed

section \<open>The function \<open>repeat\<close>\<close>

text \<open>
  C7, on the code: \<open>.repeat {3}\<close> with a body that refers to \<open>_index\<close> sets \<open>_index\<close> to
  0, 1 and 2 in turn and returns three copies of the body, but the copies are the body as
  it was passed: the three references to \<open>_index\<close> are not replaced by a value, neither by
  \<open>repeat\<close> nor by the expansion that receives its result, and they render as nothing.
\<close>

theorem repeat_leaves_index_references_unresolved:
  "executeChildren js0
     [FunctionCall ''repeat'' [Text ''3'' None] [] [Variable ''_index'' None] None]
     (new_context js0 no_options) =
   Some (Inr ([Variable ''_index'' None, Variable ''_index'' None, Variable ''_index'' None],
     setVariable (setVariable (setVariable (new_context js0 no_options)
       ''_index'' (VNumber (Z 0))) ''_index'' (VNumber (Z 1))) ''_index'' (VNumber (Z 2)))) \<and>
   renderChildren js0 texts0
     [Variable ''_index'' None, Variable ''_index'' None, Variable ''_index'' None] = Inr []"
proof -
  have "repeat_loop js0 (Z 0) (Z 3) [Variable ''_index'' None] (new_context js0 no_options) [] =
    Some ([Variable ''_index'' None, Variable ''_index'' None, Variable ''_index'' None],
     setVariable (setVariable (setVariable (new_context js0 no_options)
       ''_index'' (VNumber (Z 0))) ''_index'' (VNumber (Z 1))) ''_index'' (VNumber (Z 2)))"
    apply (subst repeat_loop.simps, simp add: js0_fields)
    apply (subst repeat_loop.simps, simp add: js0_fields)
    apply (subst repeat_loop.simps, simp add: js0_fields)
    apply (subst repeat_loop.simps, simp add: js0_fields)
    done
  moreover have "num_lit js0 0 = Z 0" "num_lit js0 1 = Z 1" "isNaN js0 (Z 3) = False"
    "is_zero js0 (Z 3) = False" "parseFloat js0 ''3'' = Z 3"
    by (simp_all add: js0_fields js0_numbers)
  ultimately show ?thesis
    by (simp add: call_repeat stdlib_repeat_def getNumberFromNode_def getTextFromArg_def at_def
        bindE_def num_or_def num_truthy_def ok_def renderChildren_def join_rendered_def)
qed

section \<open>Escaping in the renderer\<close>

text \<open>
  C8, on the code: the width of an image is written into the \<open>style\<close> attribute as it is,
  whatever the host's \<open>escapeHtml\<close> does to the strings passed to it; a double quote in the
  width ends the attribute.
\<close>

theorem image_width_is_emitted_unescaped:
  assumes "dom_escape J = Some f"
  shows "renderNode J T (Image s None None (Some w) None l) =
           Inr (''<img src=\"'' @ f s @ ''\"''
                @ (if w = [] then [] else '' style=\"width: '' @ w @ ''\"'') @ ''>'')"
  using assms
  by (simp add: renderImage_def escapeHtml_def bindE_def str_truthy_def)

theorem image_width_is_emitted_unescaped_witness:
  "renderNode js0 texts0 (Image ''a.png'' None None (Some ''1\" onload=\"alert(1)'') None None) =
     Inr ''<img src=\"a.png\" style=\"width: 1\" onload=\"alert(1)\">''"
  using image_width_is_emitted_unescaped [where J = js0 and f = escape3 and T = texts0
      and s = "''a.png''" and w = "''1\" onload=\"alert(1)''" and l = None]
  by (simp add: js0_fields js0_numbers del: renderNode.simps)

section \<open>Failures inside \<open>compile\<close>\<close>



section \<open>Diagnostics\<close>

text \<open>
  C10: \<open>getDiagnostics\<close> returns, whenever \<open>compile\<close> returns, one diagnostic for each
  error of the result, in order, and then one for each warning. An error of type syntax or
  semantic has severity 1, an error of type runtime and every warning severity 2. The range
  starts at the line and column of the issue, each 0 when absent, and ends on the same line
  ten characters further; the message is that of the issue.
\<close>

theorem diagnostics_severity_and_range:
  "getDiagnostics J T source =
     (case compile J T source \<lparr>o_doctype = None, o_theme = None, o_outputFormat = None,
              o_strict = Some False, o_includePaths = None\<rparr> of
        None \<Rightarrow> None
      | Some r \<Rightarrow>
          Some (map (\<lambda>e.
                  \<lparr>d_range =
                     \<lparr>r_start = \<lparr>p_line = (case e_line e of None \<Rightarrow> 0 | Some n \<Rightarrow> n),
                                 p_character = (case e_column e of None \<Rightarrow> 0 | Some n \<Rightarrow> n)\<rparr>,
                      r_end = \<lparr>p_line = (case e_line e of None \<Rightarrow> 0 | Some n \<Rightarrow> n),
                               p_character =
                                 (case e_column e of None \<Rightarrow> 0 | Some n \<Rightarrow> n) + 10\<rparr>\<rparr>,
                   d_message = e_message e,
                   d_severity = (case e_type e of Syntax \<Rightarrow> 1 | Semantic \<Rightarrow> 1 | Runtime \<Rightarrow> 2),
                   d_source = ''quarkdown''\<rparr>) (result_errors r) @
                map (\<lambda>w.
                  \<lparr>d_range =
                     \<lparr>r_start = \<lparr>p_line = (case w_line w of None \<Rightarrow> 0 | Some n \<Rightarrow> n),
                                 p_character = (case w_column w of None \<Rightarrow> 0 | Some n \<Rightarrow> n)\<rparr>,
                      r_end = \<lparr>p_line = (case w_line w of None \<Rightarrow> 0 | Some n \<Rightarrow> n),
                               p_character =
                                 (case w_column w of None \<Rightarrow> 0 | Some n \<Rightarrow> n) + 10\<rparr>\<rparr>,
                   d_message = w_message w, d_severity = 2, d_source = ''quarkdown''\<rparr>)
                  (result_warnings r))) \<and>
   (\<forall>m ln col ty.
      toDiagnostic (Inl \<lparr>e_message = m, e_line = ln, e_column = col, e_type = ty\<rparr>) =
        \<lparr>d_range =
           \<lparr>r_start = \<lparr>p_line = (case ln of None \<Rightarrow> 0 | Some n \<Rightarrow> n),
                       p_character = (case col of None \<Rightarrow> 0 | Some n \<Rightarrow> n)\<rparr>,
            r_end = \<lparr>p_line = (case ln of None \<Rightarrow> 0 | Some n \<Rightarrow> n),
                     p_character = (case col of None \<Rightarrow> 0 | Some n \<Rightarrow> n) + 10\<rparr>\<rparr>,
         d_message = m,
         d_severity = (case ty of Syntax \<Rightarrow> 1 | Semantic \<Rightarrow> 1 | Runtime \<Rightarrow> 2),
         d_source = ''quarkdown''\<rparr>) \<and>
   (\<forall>m ln col ty.
      toDiagnostic (Inr \<lparr>w_message = m, w_line = ln, w_column = col, w_type = ty\<rparr>) =
        \<lparr>d_range =
           \<lparr>r_start = \<lparr>p_line = (case ln of None \<Rightarrow> 0 | Some n \<Rightarrow> n),
                       p_character = (case col of None \<Rightarrow> 0 | Some n \<Rightarrow> n)\<rparr>,
            r_end = \<lparr>p_line = (case ln of None \<Rightarrow> 0 | Some n \<Rightarrow> n),
                     p_character = (case col of None \<Rightarrow> 0 | Some n \<Rightarrow> n) + 10\<rparr>\<rparr>,
         d_message = m, d_severity = 2, d_source = ''quarkdown''\<rparr>)"
proof -
  have e: "toDiagnostic (Inl e) =
        \<lparr>d_range =
           \<lparr>r_start = \<lparr>p_line = (case e_line e of None \<Rightarrow> 0 | Some n \<Rightarrow> n),
                       p_character = (case e_column e of None \<Rightarrow> 0 | Some n \<Rightarrow> n)\<rparr>,
            r_end = \<lparr>p_line = (case e_line e of None \<Rightarrow> 0 | Some n \<Rightarrow> n),
                     p_character = (case e_column e of None \<Rightarrow> 0 | Some n \<Rightarrow> n) + 10\<rparr>\<rparr>,
         d_message = e_message e,
         d_severity = (case e_type e of Syntax \<Rightarrow> 1 | Semantic \<Rightarrow> 1 | Runtime \<Rightarrow> 2),
         d_source = ''quarkdown''\<rparr>" for e
    by (cases "e_type e")
       (simp_all add: toDiagnostic_def issue_type_def issue_line_def issue_column_def
          issue_message_def or_zero_def)
  have w: "toDiagnostic (Inr w) =
        \<lparr>d_range =
           \<lparr>r_start = \<lparr>p_line = (case w_line w of None \<Rightarrow> 0 | Some n \<Rightarrow> n),
                       p_character = (case w_column w of None \<Rightarrow> 0 | Some n \<Rightarrow> n)\<rparr>,
            r_end = \<lparr>p_line = (case w_line w of None \<Rightarrow> 0 | Some n \<Rightarrow> n),
                     p_character = (case w_column w of None \<Rightarrow> 0 | Some n \<Rightarrow> n) + 10\<rparr>\<rparr>,
         d_message = w_message w, d_severity = 2, d_source = ''quarkdown''\<rparr>" for w
    by (cases "w_type w")
       (simp_all add: toDiagnostic_def issue_type_def issue_line_def issue_column_def
          issue_message_def or_zero_def)
  have g: "map toDiagnostic (result_issues r) =
             map (\<lambda>e. toDiagnostic (Inl e)) (result_errors r) @
             map (\<lambda>w. toDiagnostic (Inr w)) (result_warnings r)" for r
    by (simp add: result_issues_def comp_def)
  show ?thesis
    apply (intro conjI allI)
    subgoal by (simp add: getDiagnostics_def g e w split: option.splits)
    subgoal for m ln col ty
      using e [of "\<lparr>e_message = m, e_line = ln, e_column = col, e_type = ty\<rparr>"] by simp
    subgoal for m ln col ty
      using w [of "\<lparr>w_message = m, w_line = ln, w_column = col, w_type = ty\<rparr>"] by simp
    done
qed

theorem diagnostics_severity_and_range_witness:
  "getDiagnostics (js_failing\<lparr>dom_escape := None\<rparr>) texts0 ''# title'' =
     Some [\<lparr>d_range = \<lparr>r_start = \<lparr>p_line = 0, p_character = 0\<rparr>,
                        r_end = \<lparr>p_line = 0, p_character = 10\<rparr>\<rparr>,
            d_message = ''Parse error: boom'', d_severity = 1, d_source = ''quarkdown''\<rparr>,
           \<lparr>d_range = \<lparr>r_start = \<lparr>p_line = 0, p_character = 0\<rparr>,
                        r_end = \<lparr>p_line = 0, p_character = 10\<rparr>\<rparr>,
            d_message = ''Compilation failed: document is not defined'', d_severity = 2,
            d_source = ''quarkdown''\<rparr>] \<and>
   toDiagnostic (Inl \<lparr>e_message = ''bad'', e_line = Some 3, e_column = Some 4,
                      e_type = Semantic\<rparr>) =
     \<lparr>d_range = \<lparr>r_start = \<lparr>p_line = 3, p_character = 4\<rparr>,
                 r_end = \<lparr>p_line = 3, p_character = 14\<rparr>\<rparr>,
      d_message = ''bad'', d_severity = 1, d_source = ''quarkdown''\<rparr> \<and>
   toDiagnostic (Inr \<lparr>w_message = ''slow'', w_line = Some 5, w_column = None,
                      w_type = Performance\<rparr>) =
     \<lparr>d_range = \<lparr>r_start = \<lparr>p_line = 5, p_character = 0\<rparr>,
                 r_end = \<lparr>p_line = 5, p_character = 10\<rparr>\<rparr>,
      d_message = ''slow'', d_severity = 2, d_source = ''quarkdown''\<rparr>"
proof -
  have c: "compile (js_failing\<lparr>dom_escape := None\<rparr>) texts0 ''# title''
       \<lparr>o_doctype = None, o_theme = None, o_outputFormat = None, o_strict = Some False,
        o_includePaths = None\<rparr> =
     Some \<lparr>html = [],
           result_metadata = getDefaultMetadata (js_failing\<lparr>dom_escape := None\<rparr>),
           result_errors =
             [\<lparr>e_message = ''Parse error: boom'', e_line = None, e_column = None,
               e_type = Syntax\<rparr>,
              \<lparr>e_message = ''Compilation failed: document is not defined'', e_line = None,
               e_column = None, e_type = Runtime\<rparr>],
           result_warnings = []\<rparr>"
    by (simp add: compile_def compile_try_def parse_def parse_try_def bindE_def js_failing_def
        executeDocument_def ok_def render_def renderChildren_def join_rendered_def
        wrapWithDocument_def str_or_default_def str_truthy_def escapeHtml_def runtime_error_def)
  show ?thesis
    using diagnostics_severity_and_range [of "js_failing\<lparr>dom_escape := None\<rparr>" texts0 "''# title''"]
    by (simp add: c)
qed

end
